theory Spec2Isabelle
  imports Main "HOL-Library.Sublist"
begin

section \<open>Dialogue routing and session memory of the Isvaryam chatbot (app.py)\<close>

text \<open>
  A shallow embedding of the decision logic of \<^verbatim>\<open>app.py\<close>: intent detection,
  the intent responders, the TinyLlama helper and the \<^verbatim>\<open>/chatbot\<close> route with its
  per-user history.

  A Python \<^verbatim>\<open>str\<close> is a sequence of Unicode code points and is modelled as a list
  of natural numbers, one per code point. \<open>str\<close> turns an ASCII literal into such a
  list. \<^verbatim>\<open>str.lower\<close> and \<^verbatim>\<open>str.isspace\<close> follow CPython 3.11 and its Unicode
  14.0 tables.
\<close>

subsection \<open>Data\<close>

type_synonym pystr = "nat list"

definition str :: "string \<Rightarrow> pystr" where
  "str s = map of_char s"

text \<open>
  A \<^verbatim>\<open>ChatMessage\<close> is the dictionary \<^verbatim>\<open>{"role": ..., "content": ...}\<close>.
\<close>

record ChatMessage =
  role :: pystr
  content :: pystr

text \<open>
  Anything raised by \<^verbatim>\<open>llm.create_chat_completion\<close>, or while reading
  \<^verbatim>\<open>res["choices"][0]["message"]["content"]\<close>, is one error value.
\<close>

datatype error = LlamaError

text \<open>
  The model is outside the repository: it is a parameter, a function from the
  \<^verbatim>\<open>messages\<close> and the \<^verbatim>\<open>stream\<close> flag to either an error or the content of the
  first choice. Sampling makes the real model non-deterministic, so every request
  comes with its own such function.
\<close>

type_synonym llama = "ChatMessage list \<Rightarrow> bool \<Rightarrow> error + pystr"

text \<open>
  \<^verbatim>\<open>conversation_context: dict[str, dict] = defaultdict(dict)\<close>: user id to a
  dictionary, whose only key ever written is \<^verbatim>\<open>"history"\<close>.
\<close>

type_synonym session = "pystr \<rightharpoonup> ChatMessage list"

type_synonym sessions = "pystr \<rightharpoonup> session"


subsection \<open>Unicode tables\<close>

text \<open>
  The lower-case mapping of the code points from U+0080 on, U+0130 and U+03A3 apart:
  a rule \<open>(lo, hi, step, target)\<close> sends \<open>lo\<close>, \<open>lo + step\<close>, ... up to \<open>hi\<close> to
  \<open>target\<close>, \<open>target + step\<close>, ... Every other code point is its own lower case.
\<close>

definition lower_rules :: "(nat \<times> nat \<times> nat \<times> nat) list" where
  "lower_rules =
    [
     (0xC0, 0xD6, 1, 0xE0), (0xD8, 0xDE, 1, 0xF8), (0x100, 0x12E, 2, 0x101),
     (0x132, 0x136, 2, 0x133), (0x139, 0x147, 2, 0x13A), (0x14A, 0x176, 2, 0x14B),
     (0x178, 0x178, 1, 0xFF), (0x179, 0x17D, 2, 0x17A), (0x181, 0x181, 1, 0x253),
     (0x182, 0x184, 2, 0x183), (0x186, 0x186, 1, 0x254), (0x187, 0x187, 1, 0x188),
     (0x189, 0x18A, 1, 0x256), (0x18B, 0x18B, 1, 0x18C), (0x18E, 0x18E, 1, 0x1DD),
     (0x18F, 0x18F, 1, 0x259), (0x190, 0x190, 1, 0x25B), (0x191, 0x191, 1, 0x192),
     (0x193, 0x193, 1, 0x260), (0x194, 0x194, 1, 0x263), (0x196, 0x196, 1, 0x269),
     (0x197, 0x197, 1, 0x268), (0x198, 0x198, 1, 0x199), (0x19C, 0x19C, 1, 0x26F),
     (0x19D, 0x19D, 1, 0x272), (0x19F, 0x19F, 1, 0x275), (0x1A0, 0x1A4, 2, 0x1A1),
     (0x1A6, 0x1A6, 1, 0x280), (0x1A7, 0x1A7, 1, 0x1A8), (0x1A9, 0x1A9, 1, 0x283),
     (0x1AC, 0x1AC, 1, 0x1AD), (0x1AE, 0x1AE, 1, 0x288), (0x1AF, 0x1AF, 1, 0x1B0),
     (0x1B1, 0x1B2, 1, 0x28A), (0x1B3, 0x1B5, 2, 0x1B4), (0x1B7, 0x1B7, 1, 0x292),
     (0x1B8, 0x1B8, 1, 0x1B9), (0x1BC, 0x1BC, 1, 0x1BD), (0x1C4, 0x1C4, 1, 0x1C6),
     (0x1C5, 0x1C5, 1, 0x1C6), (0x1C7, 0x1C7, 1, 0x1C9), (0x1C8, 0x1C8, 1, 0x1C9),
     (0x1CA, 0x1CA, 1, 0x1CC), (0x1CB, 0x1DB, 2, 0x1CC), (0x1DE, 0x1EE, 2, 0x1DF),
     (0x1F1, 0x1F1, 1, 0x1F3), (0x1F2, 0x1F4, 2, 0x1F3), (0x1F6, 0x1F6, 1, 0x195),
     (0x1F7, 0x1F7, 1, 0x1BF), (0x1F8, 0x21E, 2, 0x1F9), (0x220, 0x220, 1, 0x19E),
     (0x222, 0x232, 2, 0x223), (0x23A, 0x23A, 1, 0x2C65), (0x23B, 0x23B, 1, 0x23C),
     (0x23D, 0x23D, 1, 0x19A), (0x23E, 0x23E, 1, 0x2C66), (0x241, 0x241, 1, 0x242),
     (0x243, 0x243, 1, 0x180), (0x244, 0x244, 1, 0x289), (0x245, 0x245, 1, 0x28C),
     (0x246, 0x24E, 2, 0x247), (0x370, 0x372, 2, 0x371), (0x376, 0x376, 1, 0x377),
     (0x37F, 0x37F, 1, 0x3F3), (0x386, 0x386, 1, 0x3AC), (0x388, 0x38A, 1, 0x3AD),
     (0x38C, 0x38C, 1, 0x3CC), (0x38E, 0x38F, 1, 0x3CD), (0x391, 0x3A1, 1, 0x3B1),
     (0x3A4, 0x3AB, 1, 0x3C4), (0x3CF, 0x3CF, 1, 0x3D7), (0x3D8, 0x3EE, 2, 0x3D9),
     (0x3F4, 0x3F4, 1, 0x3B8), (0x3F7, 0x3F7, 1, 0x3F8), (0x3F9, 0x3F9, 1, 0x3F2),
     (0x3FA, 0x3FA, 1, 0x3FB), (0x3FD, 0x3FF, 1, 0x37B), (0x400, 0x40F, 1, 0x450),
     (0x410, 0x42F, 1, 0x430), (0x460, 0x480, 2, 0x461), (0x48A, 0x4BE, 2, 0x48B),
     (0x4C0, 0x4C0, 1, 0x4CF), (0x4C1, 0x4CD, 2, 0x4C2), (0x4D0, 0x52E, 2, 0x4D1),
     (0x531, 0x556, 1, 0x561), (0x10A0, 0x10C5, 1, 0x2D00), (0x10C7, 0x10C7, 1, 0x2D27),
     (0x10CD, 0x10CD, 1, 0x2D2D), (0x13A0, 0x13EF, 1, 0xAB70), (0x13F0, 0x13F5, 1, 0x13F8),
     (0x1C90, 0x1CBA, 1, 0x10D0), (0x1CBD, 0x1CBF, 1, 0x10FD), (0x1E00, 0x1E94, 2, 0x1E01),
     (0x1E9E, 0x1E9E, 1, 0xDF), (0x1EA0, 0x1EFE, 2, 0x1EA1), (0x1F08, 0x1F0F, 1, 0x1F00),
     (0x1F18, 0x1F1D, 1, 0x1F10), (0x1F28, 0x1F2F, 1, 0x1F20), (0x1F38, 0x1F3F, 1, 0x1F30),
     (0x1F48, 0x1F4D, 1, 0x1F40), (0x1F59, 0x1F5F, 2, 0x1F51), (0x1F68, 0x1F6F, 1, 0x1F60),
     (0x1F88, 0x1F8F, 1, 0x1F80), (0x1F98, 0x1F9F, 1, 0x1F90), (0x1FA8, 0x1FAF, 1, 0x1FA0),
     (0x1FB8, 0x1FB9, 1, 0x1FB0), (0x1FBA, 0x1FBB, 1, 0x1F70), (0x1FBC, 0x1FBC, 1, 0x1FB3),
     (0x1FC8, 0x1FCB, 1, 0x1F72), (0x1FCC, 0x1FCC, 1, 0x1FC3), (0x1FD8, 0x1FD9, 1, 0x1FD0),
     (0x1FDA, 0x1FDB, 1, 0x1F76), (0x1FE8, 0x1FE9, 1, 0x1FE0), (0x1FEA, 0x1FEB, 1, 0x1F7A),
     (0x1FEC, 0x1FEC, 1, 0x1FE5), (0x1FF8, 0x1FF9, 1, 0x1F78), (0x1FFA, 0x1FFB, 1, 0x1F7C),
     (0x1FFC, 0x1FFC, 1, 0x1FF3), (0x2126, 0x2126, 1, 0x3C9), (0x212A, 0x212A, 1, 0x6B),
     (0x212B, 0x212B, 1, 0xE5), (0x2132, 0x2132, 1, 0x214E), (0x2160, 0x216F, 1, 0x2170),
     (0x2183, 0x2183, 1, 0x2184), (0x24B6, 0x24CF, 1, 0x24D0), (0x2C00, 0x2C2F, 1, 0x2C30),
     (0x2C60, 0x2C60, 1, 0x2C61), (0x2C62, 0x2C62, 1, 0x26B), (0x2C63, 0x2C63, 1, 0x1D7D),
     (0x2C64, 0x2C64, 1, 0x27D), (0x2C67, 0x2C6B, 2, 0x2C68), (0x2C6D, 0x2C6D, 1, 0x251),
     (0x2C6E, 0x2C6E, 1, 0x271), (0x2C6F, 0x2C6F, 1, 0x250), (0x2C70, 0x2C70, 1, 0x252),
     (0x2C72, 0x2C72, 1, 0x2C73), (0x2C75, 0x2C75, 1, 0x2C76), (0x2C7E, 0x2C7F, 1, 0x23F),
     (0x2C80, 0x2CE2, 2, 0x2C81), (0x2CEB, 0x2CED, 2, 0x2CEC), (0x2CF2, 0x2CF2, 1, 0x2CF3),
     (0xA640, 0xA66C, 2, 0xA641), (0xA680, 0xA69A, 2, 0xA681), (0xA722, 0xA72E, 2, 0xA723),
     (0xA732, 0xA76E, 2, 0xA733), (0xA779, 0xA77B, 2, 0xA77A), (0xA77D, 0xA77D, 1, 0x1D79),
     (0xA77E, 0xA786, 2, 0xA77F), (0xA78B, 0xA78B, 1, 0xA78C), (0xA78D, 0xA78D, 1, 0x265),
     (0xA790, 0xA792, 2, 0xA791), (0xA796, 0xA7A8, 2, 0xA797), (0xA7AA, 0xA7AA, 1, 0x266),
     (0xA7AB, 0xA7AB, 1, 0x25C), (0xA7AC, 0xA7AC, 1, 0x261), (0xA7AD, 0xA7AD, 1, 0x26C),
     (0xA7AE, 0xA7AE, 1, 0x26A), (0xA7B0, 0xA7B0, 1, 0x29E), (0xA7B1, 0xA7B1, 1, 0x287),
     (0xA7B2, 0xA7B2, 1, 0x29D), (0xA7B3, 0xA7B3, 1, 0xAB53), (0xA7B4, 0xA7C2, 2, 0xA7B5),
     (0xA7C4, 0xA7C4, 1, 0xA794), (0xA7C5, 0xA7C5, 1, 0x282), (0xA7C6, 0xA7C6, 1, 0x1D8E),
     (0xA7C7, 0xA7C9, 2, 0xA7C8), (0xA7D0, 0xA7D0, 1, 0xA7D1), (0xA7D6, 0xA7D8, 2, 0xA7D7),
     (0xA7F5, 0xA7F5, 1, 0xA7F6), (0xFF21, 0xFF3A, 1, 0xFF41), (0x10400, 0x10427, 1, 0x10428),
     (0x104B0, 0x104D3, 1, 0x104D8), (0x10570, 0x10594, 2, 0x10597), (0x10571, 0x10579, 2, 0x10598),
     (0x1057D, 0x10589, 2, 0x105A4), (0x1058D, 0x10591, 2, 0x105B4), (0x10595, 0x10595, 1, 0x105BC),
     (0x10C80, 0x10CB2, 1, 0x10CC0), (0x118A0, 0x118BF, 1, 0x118C0), (0x16E40, 0x16E5F, 1, 0x16E60),
     (0x1E900, 0x1E921, 1, 0x1E922)
    ]"

text \<open>
  \<open>cased_ranges\<close> are the code points with the property Cased,
  \<open>case_ignorable_ranges\<close> those with Case_Ignorable and \<open>space_ranges\<close> those for
  which \<^verbatim>\<open>str.isspace\<close> holds, as closed intervals.
\<close>

definition cased_ranges :: "(nat \<times> nat) list" where
  "cased_ranges =
    [
     (0x41, 0x5A), (0x61, 0x7A), (0xAA, 0xAA), (0xB5, 0xB5), (0xBA, 0xBA),
     (0xC0, 0xD6), (0xD8, 0xF6), (0xF8, 0x1BA), (0x1BC, 0x1BF), (0x1C4, 0x293),
     (0x295, 0x2B8), (0x2C0, 0x2C1), (0x2E0, 0x2E4), (0x345, 0x345), (0x370, 0x373),
     (0x376, 0x377), (0x37A, 0x37D), (0x37F, 0x37F), (0x386, 0x386), (0x388, 0x38A),
     (0x38C, 0x38C), (0x38E, 0x3A1), (0x3A3, 0x3F5), (0x3F7, 0x481), (0x48A, 0x52F),
     (0x531, 0x556), (0x560, 0x588), (0x10A0, 0x10C5), (0x10C7, 0x10C7), (0x10CD, 0x10CD),
     (0x10D0, 0x10FA), (0x10FD, 0x10FF), (0x13A0, 0x13F5), (0x13F8, 0x13FD), (0x1C80, 0x1C88),
     (0x1C90, 0x1CBA), (0x1CBD, 0x1CBF), (0x1D00, 0x1DBF), (0x1E00, 0x1F15), (0x1F18, 0x1F1D),
     (0x1F20, 0x1F45), (0x1F48, 0x1F4D), (0x1F50, 0x1F57), (0x1F59, 0x1F59), (0x1F5B, 0x1F5B),
     (0x1F5D, 0x1F5D), (0x1F5F, 0x1F7D), (0x1F80, 0x1FB4), (0x1FB6, 0x1FBC), (0x1FBE, 0x1FBE),
     (0x1FC2, 0x1FC4), (0x1FC6, 0x1FCC), (0x1FD0, 0x1FD3), (0x1FD6, 0x1FDB), (0x1FE0, 0x1FEC),
     (0x1FF2, 0x1FF4), (0x1FF6, 0x1FFC), (0x2071, 0x2071), (0x207F, 0x207F), (0x2090, 0x209C),
     (0x2102, 0x2102), (0x2107, 0x2107), (0x210A, 0x2113), (0x2115, 0x2115), (0x2119, 0x211D),
     (0x2124, 0x2124), (0x2126, 0x2126), (0x2128, 0x2128), (0x212A, 0x212D), (0x212F, 0x2134),
     (0x2139, 0x2139), (0x213C, 0x213F), (0x2145, 0x2149), (0x214E, 0x214E), (0x2160, 0x217F),
     (0x2183, 0x2184), (0x24B6, 0x24E9), (0x2C00, 0x2CE4), (0x2CEB, 0x2CEE), (0x2CF2, 0x2CF3),
     (0x2D00, 0x2D25), (0x2D27, 0x2D27), (0x2D2D, 0x2D2D), (0xA640, 0xA66D), (0xA680, 0xA69D),
     (0xA722, 0xA787), (0xA78B, 0xA78E), (0xA790, 0xA7CA), (0xA7D0, 0xA7D1), (0xA7D3, 0xA7D3),
     (0xA7D5, 0xA7D9), (0xA7F5, 0xA7F6), (0xA7F8, 0xA7FA), (0xAB30, 0xAB5A), (0xAB5C, 0xAB68),
     (0xAB70, 0xABBF), (0xFB00, 0xFB06), (0xFB13, 0xFB17), (0xFF21, 0xFF3A), (0xFF41, 0xFF5A),
     (0x10400, 0x1044F), (0x104B0, 0x104D3), (0x104D8, 0x104FB), (0x10570, 0x1057A), (0x1057C, 0x1058A),
     (0x1058C, 0x10592), (0x10594, 0x10595), (0x10597, 0x105A1), (0x105A3, 0x105B1), (0x105B3, 0x105B9),
     (0x105BB, 0x105BC), (0x10780, 0x10780), (0x10783, 0x10785), (0x10787, 0x107B0), (0x107B2, 0x107BA),
     (0x10C80, 0x10CB2), (0x10CC0, 0x10CF2), (0x118A0, 0x118DF), (0x16E40, 0x16E7F), (0x1D400, 0x1D454),
     (0x1D456, 0x1D49C), (0x1D49E, 0x1D49F), (0x1D4A2, 0x1D4A2), (0x1D4A5, 0x1D4A6), (0x1D4A9, 0x1D4AC),
     (0x1D4AE, 0x1D4B9), (0x1D4BB, 0x1D4BB), (0x1D4BD, 0x1D4C3), (0x1D4C5, 0x1D505), (0x1D507, 0x1D50A),
     (0x1D50D, 0x1D514), (0x1D516, 0x1D51C), (0x1D51E, 0x1D539), (0x1D53B, 0x1D53E), (0x1D540, 0x1D544),
     (0x1D546, 0x1D546), (0x1D54A, 0x1D550), (0x1D552, 0x1D6A5), (0x1D6A8, 0x1D6C0), (0x1D6C2, 0x1D6DA),
     (0x1D6DC, 0x1D6FA), (0x1D6FC, 0x1D714), (0x1D716, 0x1D734), (0x1D736, 0x1D74E), (0x1D750, 0x1D76E),
     (0x1D770, 0x1D788), (0x1D78A, 0x1D7A8), (0x1D7AA, 0x1D7C2), (0x1D7C4, 0x1D7CB), (0x1DF00, 0x1DF09),
     (0x1DF0B, 0x1DF1E), (0x1E900, 0x1E943), (0x1F130, 0x1F149), (0x1F150, 0x1F169), (0x1F170, 0x1F189)
    ]"

definition case_ignorable_ranges :: "(nat \<times> nat) list" where
  "case_ignorable_ranges =
    [
     (0x27, 0x27), (0x2E, 0x2E), (0x3A, 0x3A), (0x5E, 0x5E), (0x60, 0x60),
     (0xA8, 0xA8), (0xAD, 0xAD), (0xAF, 0xAF), (0xB4, 0xB4), (0xB7, 0xB8),
     (0x2B0, 0x36F), (0x374, 0x375), (0x37A, 0x37A), (0x384, 0x385), (0x387, 0x387),
     (0x483, 0x489), (0x559, 0x559), (0x55F, 0x55F), (0x591, 0x5BD), (0x5BF, 0x5BF),
     (0x5C1, 0x5C2), (0x5C4, 0x5C5), (0x5C7, 0x5C7), (0x5F4, 0x5F4), (0x600, 0x605),
     (0x610, 0x61A), (0x61C, 0x61C), (0x640, 0x640), (0x64B, 0x65F), (0x670, 0x670),
     (0x6D6, 0x6DD), (0x6DF, 0x6E8), (0x6EA, 0x6ED), (0x70F, 0x70F), (0x711, 0x711),
     (0x730, 0x74A), (0x7A6, 0x7B0), (0x7EB, 0x7F5), (0x7FA, 0x7FA), (0x7FD, 0x7FD),
     (0x816, 0x82D), (0x859, 0x85B), (0x888, 0x888), (0x890, 0x891), (0x898, 0x89F),
     (0x8C9, 0x902), (0x93A, 0x93A), (0x93C, 0x93C), (0x941, 0x948), (0x94D, 0x94D),
     (0x951, 0x957), (0x962, 0x963), (0x971, 0x971), (0x981, 0x981), (0x9BC, 0x9BC),
     (0x9C1, 0x9C4), (0x9CD, 0x9CD), (0x9E2, 0x9E3), (0x9FE, 0x9FE), (0xA01, 0xA02),
     (0xA3C, 0xA3C), (0xA41, 0xA42), (0xA47, 0xA48), (0xA4B, 0xA4D), (0xA51, 0xA51),
     (0xA70, 0xA71), (0xA75, 0xA75), (0xA81, 0xA82), (0xABC, 0xABC), (0xAC1, 0xAC5),
     (0xAC7, 0xAC8), (0xACD, 0xACD), (0xAE2, 0xAE3), (0xAFA, 0xAFF), (0xB01, 0xB01),
     (0xB3C, 0xB3C), (0xB3F, 0xB3F), (0xB41, 0xB44), (0xB4D, 0xB4D), (0xB55, 0xB56),
     (0xB62, 0xB63), (0xB82, 0xB82), (0xBC0, 0xBC0), (0xBCD, 0xBCD), (0xC00, 0xC00),
     (0xC04, 0xC04), (0xC3C, 0xC3C), (0xC3E, 0xC40), (0xC46, 0xC48), (0xC4A, 0xC4D),
     (0xC55, 0xC56), (0xC62, 0xC63), (0xC81, 0xC81), (0xCBC, 0xCBC), (0xCBF, 0xCBF),
     (0xCC6, 0xCC6), (0xCCC, 0xCCD), (0xCE2, 0xCE3), (0xD00, 0xD01), (0xD3B, 0xD3C),
     (0xD41, 0xD44), (0xD4D, 0xD4D), (0xD62, 0xD63), (0xD81, 0xD81), (0xDCA, 0xDCA),
     (0xDD2, 0xDD4), (0xDD6, 0xDD6), (0xE31, 0xE31), (0xE34, 0xE3A), (0xE46, 0xE4E),
     (0xEB1, 0xEB1), (0xEB4, 0xEBC), (0xEC6, 0xEC6), (0xEC8, 0xECD), (0xF18, 0xF19),
     (0xF35, 0xF35), (0xF37, 0xF37), (0xF39, 0xF39), (0xF71, 0xF7E), (0xF80, 0xF84),
     (0xF86, 0xF87), (0xF8D, 0xF97), (0xF99, 0xFBC), (0xFC6, 0xFC6), (0x102D, 0x1030),
     (0x1032, 0x1037), (0x1039, 0x103A), (0x103D, 0x103E), (0x1058, 0x1059), (0x105E, 0x1060),
     (0x1071, 0x1074), (0x1082, 0x1082), (0x1085, 0x1086), (0x108D, 0x108D), (0x109D, 0x109D),
     (0x10FC, 0x10FC), (0x135D, 0x135F), (0x1712, 0x1714), (0x1732, 0x1733), (0x1752, 0x1753),
     (0x1772, 0x1773), (0x17B4, 0x17B5), (0x17B7, 0x17BD), (0x17C6, 0x17C6), (0x17C9, 0x17D3),
     (0x17D7, 0x17D7), (0x17DD, 0x17DD), (0x180B, 0x180F), (0x1843, 0x1843), (0x1885, 0x1886),
     (0x18A9, 0x18A9), (0x1920, 0x1922), (0x1927, 0x1928), (0x1932, 0x1932), (0x1939, 0x193B),
     (0x1A17, 0x1A18), (0x1A1B, 0x1A1B), (0x1A56, 0x1A56), (0x1A58, 0x1A5E), (0x1A60, 0x1A60),
     (0x1A62, 0x1A62), (0x1A65, 0x1A6C), (0x1A73, 0x1A7C), (0x1A7F, 0x1A7F), (0x1AA7, 0x1AA7),
     (0x1AB0, 0x1ACE), (0x1B00, 0x1B03), (0x1B34, 0x1B34), (0x1B36, 0x1B3A), (0x1B3C, 0x1B3C),
     (0x1B42, 0x1B42), (0x1B6B, 0x1B73), (0x1B80, 0x1B81), (0x1BA2, 0x1BA5), (0x1BA8, 0x1BA9),
     (0x1BAB, 0x1BAD), (0x1BE6, 0x1BE6), (0x1BE8, 0x1BE9), (0x1BED, 0x1BED), (0x1BEF, 0x1BF1),
     (0x1C2C, 0x1C33), (0x1C36, 0x1C37), (0x1C78, 0x1C7D), (0x1CD0, 0x1CD2), (0x1CD4, 0x1CE0),
     (0x1CE2, 0x1CE8), (0x1CED, 0x1CED), (0x1CF4, 0x1CF4), (0x1CF8, 0x1CF9), (0x1D2C, 0x1D6A),
     (0x1D78, 0x1D78), (0x1D9B, 0x1DFF), (0x1FBD, 0x1FBD), (0x1FBF, 0x1FC1), (0x1FCD, 0x1FCF),
     (0x1FDD, 0x1FDF), (0x1FED, 0x1FEF), (0x1FFD, 0x1FFE), (0x200B, 0x200F), (0x2018, 0x2019),
     (0x2024, 0x2024), (0x2027, 0x2027), (0x202A, 0x202E), (0x2060, 0x2064), (0x2066, 0x206F),
     (0x2071, 0x2071), (0x207F, 0x207F), (0x2090, 0x209C), (0x20D0, 0x20F0), (0x2C7C, 0x2C7D),
     (0x2CEF, 0x2CF1), (0x2D6F, 0x2D6F), (0x2D7F, 0x2D7F), (0x2DE0, 0x2DFF), (0x2E2F, 0x2E2F),
     (0x3005, 0x3005), (0x302A, 0x302D), (0x3031, 0x3035), (0x303B, 0x303B), (0x3099, 0x309E),
     (0x30FC, 0x30FE), (0xA015, 0xA015), (0xA4F8, 0xA4FD), (0xA60C, 0xA60C), (0xA66F, 0xA672),
     (0xA674, 0xA67D), (0xA67F, 0xA67F), (0xA69C, 0xA69F), (0xA6F0, 0xA6F1), (0xA700, 0xA721),
     (0xA770, 0xA770), (0xA788, 0xA78A), (0xA7F2, 0xA7F4), (0xA7F8, 0xA7F9), (0xA802, 0xA802),
     (0xA806, 0xA806), (0xA80B, 0xA80B), (0xA825, 0xA826), (0xA82C, 0xA82C), (0xA8C4, 0xA8C5),
     (0xA8E0, 0xA8F1), (0xA8FF, 0xA8FF), (0xA926, 0xA92D), (0xA947, 0xA951), (0xA980, 0xA982),
     (0xA9B3, 0xA9B3), (0xA9B6, 0xA9B9), (0xA9BC, 0xA9BD), (0xA9CF, 0xA9CF), (0xA9E5, 0xA9E6),
     (0xAA29, 0xAA2E), (0xAA31, 0xAA32), (0xAA35, 0xAA36), (0xAA43, 0xAA43), (0xAA4C, 0xAA4C),
     (0xAA70, 0xAA70), (0xAA7C, 0xAA7C), (0xAAB0, 0xAAB0), (0xAAB2, 0xAAB4), (0xAAB7, 0xAAB8),
     (0xAABE, 0xAABF), (0xAAC1, 0xAAC1), (0xAADD, 0xAADD), (0xAAEC, 0xAAED), (0xAAF3, 0xAAF4),
     (0xAAF6, 0xAAF6), (0xAB5B, 0xAB5F), (0xAB69, 0xAB6B), (0xABE5, 0xABE5), (0xABE8, 0xABE8),
     (0xABED, 0xABED), (0xFB1E, 0xFB1E), (0xFBB2, 0xFBC2), (0xFE00, 0xFE0F), (0xFE13, 0xFE13),
     (0xFE20, 0xFE2F), (0xFE52, 0xFE52), (0xFE55, 0xFE55), (0xFEFF, 0xFEFF), (0xFF07, 0xFF07),
     (0xFF0E, 0xFF0E), (0xFF1A, 0xFF1A), (0xFF3E, 0xFF3E), (0xFF40, 0xFF40), (0xFF70, 0xFF70),
     (0xFF9E, 0xFF9F), (0xFFE3, 0xFFE3), (0xFFF9, 0xFFFB), (0x101FD, 0x101FD), (0x102E0, 0x102E0),
     (0x10376, 0x1037A), (0x10780, 0x10785), (0x10787, 0x107B0), (0x107B2, 0x107BA), (0x10A01, 0x10A03),
     (0x10A05, 0x10A06), (0x10A0C, 0x10A0F), (0x10A38, 0x10A3A), (0x10A3F, 0x10A3F), (0x10AE5, 0x10AE6),
     (0x10D24, 0x10D27), (0x10EAB, 0x10EAC), (0x10F46, 0x10F50), (0x10F82, 0x10F85), (0x11001, 0x11001),
     (0x11038, 0x11046), (0x11070, 0x11070), (0x11073, 0x11074), (0x1107F, 0x11081), (0x110B3, 0x110B6),
     (0x110B9, 0x110BA), (0x110BD, 0x110BD), (0x110C2, 0x110C2), (0x110CD, 0x110CD), (0x11100, 0x11102),
     (0x11127, 0x1112B), (0x1112D, 0x11134), (0x11173, 0x11173), (0x11180, 0x11181), (0x111B6, 0x111BE),
     (0x111C9, 0x111CC), (0x111CF, 0x111CF), (0x1122F, 0x11231), (0x11234, 0x11234), (0x11236, 0x11237),
     (0x1123E, 0x1123E), (0x112DF, 0x112DF), (0x112E3, 0x112EA), (0x11300, 0x11301), (0x1133B, 0x1133C),
     (0x11340, 0x11340), (0x11366, 0x1136C), (0x11370, 0x11374), (0x11438, 0x1143F), (0x11442, 0x11444),
     (0x11446, 0x11446), (0x1145E, 0x1145E), (0x114B3, 0x114B8), (0x114BA, 0x114BA), (0x114BF, 0x114C0),
     (0x114C2, 0x114C3), (0x115B2, 0x115B5), (0x115BC, 0x115BD), (0x115BF, 0x115C0), (0x115DC, 0x115DD),
     (0x11633, 0x1163A), (0x1163D, 0x1163D), (0x1163F, 0x11640), (0x116AB, 0x116AB), (0x116AD, 0x116AD),
     (0x116B0, 0x116B5), (0x116B7, 0x116B7), (0x1171D, 0x1171F), (0x11722, 0x11725), (0x11727, 0x1172B),
     (0x1182F, 0x11837), (0x11839, 0x1183A), (0x1193B, 0x1193C), (0x1193E, 0x1193E), (0x11943, 0x11943),
     (0x119D4, 0x119D7), (0x119DA, 0x119DB), (0x119E0, 0x119E0), (0x11A01, 0x11A0A), (0x11A33, 0x11A38),
     (0x11A3B, 0x11A3E), (0x11A47, 0x11A47), (0x11A51, 0x11A56), (0x11A59, 0x11A5B), (0x11A8A, 0x11A96),
     (0x11A98, 0x11A99), (0x11C30, 0x11C36), (0x11C38, 0x11C3D), (0x11C3F, 0x11C3F), (0x11C92, 0x11CA7),
     (0x11CAA, 0x11CB0), (0x11CB2, 0x11CB3), (0x11CB5, 0x11CB6), (0x11D31, 0x11D36), (0x11D3A, 0x11D3A),
     (0x11D3C, 0x11D3D), (0x11D3F, 0x11D45), (0x11D47, 0x11D47), (0x11D90, 0x11D91), (0x11D95, 0x11D95),
     (0x11D97, 0x11D97), (0x11EF3, 0x11EF4), (0x13430, 0x13438), (0x16AF0, 0x16AF4), (0x16B30, 0x16B36),
     (0x16B40, 0x16B43), (0x16F4F, 0x16F4F), (0x16F8F, 0x16F9F), (0x16FE0, 0x16FE1), (0x16FE3, 0x16FE4),
     (0x1AFF0, 0x1AFF3), (0x1AFF5, 0x1AFFB), (0x1AFFD, 0x1AFFE), (0x1BC9D, 0x1BC9E), (0x1BCA0, 0x1BCA3),
     (0x1CF00, 0x1CF2D), (0x1CF30, 0x1CF46), (0x1D167, 0x1D169), (0x1D173, 0x1D182), (0x1D185, 0x1D18B),
     (0x1D1AA, 0x1D1AD), (0x1D242, 0x1D244), (0x1DA00, 0x1DA36), (0x1DA3B, 0x1DA6C), (0x1DA75, 0x1DA75),
     (0x1DA84, 0x1DA84), (0x1DA9B, 0x1DA9F), (0x1DAA1, 0x1DAAF), (0x1E000, 0x1E006), (0x1E008, 0x1E018),
     (0x1E01B, 0x1E021), (0x1E023, 0x1E024), (0x1E026, 0x1E02A), (0x1E130, 0x1E13D), (0x1E2AE, 0x1E2AE),
     (0x1E2EC, 0x1E2EF), (0x1E8D0, 0x1E8D6), (0x1E944, 0x1E94B), (0x1F3FB, 0x1F3FF), (0xE0001, 0xE0001),
     (0xE0020, 0xE007F), (0xE0100, 0xE01EF)
    ]"

definition space_ranges :: "(nat \<times> nat) list" where
  "space_ranges =
    [(0x09, 0x0D), (0x1C, 0x20), (0x85, 0x85), (0xA0, 0xA0), (0x1680, 0x1680),
     (0x2000, 0x200A), (0x2028, 0x2029), (0x202F, 0x202F), (0x205F, 0x205F),
     (0x3000, 0x3000)]"

subsection \<open>Python primitives\<close>

text \<open>\<^verbatim>\<open>d.get(k, default)\<close>\<close>

definition dict_get :: "('k \<rightharpoonup> 'v) \<Rightarrow> 'k \<Rightarrow> 'v \<Rightarrow> 'v" where
  "dict_get d k dflt = (case d k of None \<Rightarrow> dflt | Some v \<Rightarrow> v)"

text \<open>
  \<^verbatim>\<open>d[k]\<close> on a \<^verbatim>\<open>defaultdict(dict)\<close>: a missing key is first bound to a new empty
  dictionary. The result is the value and the dictionary after the access.
\<close>

definition defaultdict_get :: "sessions \<Rightarrow> pystr \<Rightarrow> session \<times> sessions" where
  "defaultdict_get cc k =
     (case cc k of None \<Rightarrow> (Map.empty, cc(k \<mapsto> Map.empty)) | Some d \<Rightarrow> (d, cc))"

text \<open>
  \<^verbatim>\<open>xs[-n:]\<close> for \<open>n > 0\<close>: the last \<open>n\<close> entries, the whole list when it is
  shorter (the subtraction on \<open>nat\<close> stops at 0, as the slice clamps its start).
\<close>

definition last_n :: "nat \<Rightarrow> 'a list \<Rightarrow> 'a list" where
  "last_n n xs = drop (length xs - n) xs"

fun in_ranges :: "(nat \<times> nat) list \<Rightarrow> nat \<Rightarrow> bool" where
  "in_ranges [] c = False"
| "in_ranges ((lo, hi) # rs) c = (if lo \<le> c \<and> c \<le> hi then True else in_ranges rs c)"

definition cased :: "nat \<Rightarrow> bool" where
  "cased c = in_ranges cased_ranges c"

definition case_ignorable :: "nat \<Rightarrow> bool" where
  "case_ignorable c = in_ranges case_ignorable_ranges c"

fun lower_rule :: "(nat \<times> nat \<times> nat \<times> nat) list \<Rightarrow> nat \<Rightarrow> nat option" where
  "lower_rule [] c = None"
| "lower_rule ((lo, hi, step, target) # rs) c =
     (if lo \<le> c \<and> c \<le> hi \<and> (c - lo) mod step = 0 then Some (target + (c - lo))
      else lower_rule rs c)"

text \<open>
  The full lower-case mapping of one code point (\<^verbatim>\<open>_PyUnicode_ToLowerFull\<close>): A to Z
  are the only ASCII code points it changes, and U+0130 is the only code point it maps
  to two, \<^verbatim>\<open>i\<close> and U+0307.
\<close>

definition to_lower_full :: "nat \<Rightarrow> nat list" where
  "to_lower_full c =
     (if c < 0x80 then (if 0x41 \<le> c \<and> c \<le> 0x5A then [c + 0x20] else [c])
      else if c = 0x130 then [0x69, 0x307]
      else case lower_rule lower_rules c of None \<Rightarrow> [c] | Some l \<Rightarrow> [l])"

text \<open>
  U+03A3 becomes the final sigma U+03C2 when a cased code point comes before it and
  none after it, code points that are Case_Ignorable being skipped on both sides, and
  U+03C3 otherwise (\<^verbatim>\<open>handle_capital_sigma\<close>). \<open>seen\<close> is the text before the
  sigma, nearest code point first; \<open>rest\<close> is the text after it.
\<close>

definition handle_capital_sigma :: "nat list \<Rightarrow> nat list \<Rightarrow> nat" where
  "handle_capital_sigma seen rest =
     (let final_sigma =
            (case dropWhile case_ignorable seen of
               [] \<Rightarrow> False
             | c # _ \<Rightarrow> cased c);
          final_sigma =
            (if final_sigma
             then (case dropWhile case_ignorable rest of
                     [] \<Rightarrow> True
                   | c # _ \<Rightarrow> \<not> cased c)
             else final_sigma)
      in if final_sigma then 0x3C2 else 0x3C3)"

fun do_lower :: "nat list \<Rightarrow> nat list \<Rightarrow> nat list" where
  "do_lower seen [] = []"
| "do_lower seen (c # cs) =
     (if c = 0x3A3 then [handle_capital_sigma seen cs] else to_lower_full c)
     @ do_lower (c # seen) cs"

text \<open>\<^verbatim>\<open>str.lower\<close>\<close>

definition lower :: "pystr \<Rightarrow> pystr" where
  "lower s = do_lower [] s"

text \<open>\<^verbatim>\<open>needle in hay\<close> on strings: \<open>needle\<close> occurs as a contiguous run.\<close>

fun str_in :: "pystr \<Rightarrow> pystr \<Rightarrow> bool" where
  "str_in needle [] = (needle = [])"
| "str_in needle (c # cs) = (prefix needle (c # cs) \<or> str_in needle cs)"

text \<open>\<^verbatim>\<open>str.isspace\<close> of one code point, and \<^verbatim>\<open>str.strip\<close> without argument.\<close>

definition isspace :: "nat \<Rightarrow> bool" where
  "isspace c = in_ranges space_ranges c"

definition strip :: "pystr \<Rightarrow> pystr" where
  "strip s = rev (dropWhile isspace (rev (dropWhile isspace s)))"

subsection \<open>Intent detection\<close>

definition detect_intent :: "pystr \<Rightarrow> pystr option" where
  "detect_intent s =
     (let t = lower s in
      if list_ex (\<lambda>greet. str_in greet t) [str ''hi'', str ''hello'', str ''hey'']
      then Some (str ''greet'')
      else if str_in (str ''price'') t then Some (str ''price'')
      else None)"

text \<open>
  The salutations end in emoji: U+2600 U+FE0F, U+1F324 U+FE0F and U+1F319. The rest
  of the greeting starts with a no-break space, U+00A0.
\<close>

definition good_morning :: pystr where
  "good_morning = str ''Good morning '' @ [0x2600, 0xFE0F]"

definition good_afternoon :: pystr where
  "good_afternoon = str ''Good afternoon '' @ [0x1F324, 0xFE0F]"

definition good_evening :: pystr where
  "good_evening = str ''Good evening '' @ [0x1F319]"

definition assistant_intro :: pystr where
  "assistant_intro =
     [0xA0] @ str ''I'' @ [0x27] @ str ''m Isvaryam'' @ [0x27]
       @ str ''s assistant. How can I help you?''"

definition price_reply :: pystr where
  "price_reply = str ''Our price list is coming right up! (demo reply)''"

text \<open>
  \<^verbatim>\<open>handle_intents\<close>. \<open>hour\<close> is what \<^verbatim>\<open>datetime.now().hour\<close> returns when the
  request is handled; \<open>greet_reply\<close> is the reply of the greet branch.
\<close>

definition greet_reply :: "nat \<Rightarrow> pystr" where
  "greet_reply hour =
     (let sal = (if hour < 12 then good_morning
                 else if hour < 17 then good_afternoon else good_evening)
      in sal @ assistant_intro)"

definition handle_intents :: "nat \<Rightarrow> pystr \<Rightarrow> pystr \<Rightarrow> pystr option" where
  "handle_intents hour s user_id =
     (let intent = detect_intent s in
      if intent = Some (str ''greet'') then Some (greet_reply hour)
      else if intent = Some (str ''price'') then Some price_reply
      else None)"

text \<open>The two predicates of the rules, on the text as received.\<close>

abbreviation greet_matches :: "pystr \<Rightarrow> bool" where
  "greet_matches s \<equiv>
     str_in (str ''hi'') (lower s) \<or> str_in (str ''hello'') (lower s) \<or>
     str_in (str ''hey'') (lower s)"

abbreviation price_matches :: "pystr \<Rightarrow> bool" where
  "price_matches s \<equiv> str_in (str ''price'') (lower s)"

subsection \<open>Llama helper\<close>

text \<open>
  \<^verbatim>\<open>llama_chat\<close>. Asking the model is an effect, so the result comes with the
  requests made of the model, in order: the \<^verbatim>\<open>messages\<close> and the \<^verbatim>\<open>stream\<close> flag
  of each call of \<^verbatim>\<open>create_chat_completion\<close>.
\<close>

definition llama_chat ::
  "llama \<Rightarrow> pystr \<Rightarrow> ChatMessage list \<Rightarrow> (error + pystr) \<times> (ChatMessage list \<times> bool) list" where
  "llama_chat llm user_msg history =
     (let messages = history @ [\<lparr>role = str ''user'', content = user_msg\<rparr>];
          res = llm messages False
      in (case res of Inl e \<Rightarrow> Inl e | Inr out \<Rightarrow> Inr (strip out),
          [(messages, False)]))"

subsection \<open>The chatbot route\<close>

text \<open>
  Step 2 of \<^verbatim>\<open>chatbot\<close>, the fallback to TinyLlama, reached when no intent
  replied. The result is the reply (\<^verbatim>\<open>jsonify(response=...)\<close>) or the error that
  leaves the function, and \<^verbatim>\<open>conversation_context\<close> after the call.

  \<^verbatim>\<open>hist.extend\<close> changes the stored list in place when \<open>hist\<close> is the stored
  list; the assignment that follows replaces it, so only the assigned value is kept.
\<close>

definition chatbot_fallback ::
  "llama \<Rightarrow> pystr \<Rightarrow> pystr \<Rightarrow> sessions \<Rightarrow> (error + pystr) \<times> sessions" where
  "chatbot_fallback llm user_msg user_id cc =
     (let (sess, cc1) = defaultdict_get cc user_id;
          hist = dict_get sess (str ''history'') []
      in case fst (llama_chat llm user_msg hist) of
           Inl e \<Rightarrow> (Inl e, cc1)
         | Inr llama_reply \<Rightarrow>
             (let hist2 = hist @ [\<lparr>role = str ''user'', content = user_msg\<rparr>,
                                  \<lparr>role = str ''assistant'', content = llama_reply\<rparr>];
                  (sess2, cc2) = defaultdict_get cc1 user_id
              in (Inr llama_reply,
                  cc2(user_id \<mapsto> sess2(str ''history'' \<mapsto> last_n 10 hist2)))))"

text \<open>
  \<^verbatim>\<open>chatbot\<close>. \<open>json\<close> is the request body, an object with string values.
  \<^verbatim>\<open>if intent_reply:\<close> is false for \<^verbatim>\<open>None\<close> and for the empty string.
\<close>

definition request_message :: "(pystr \<rightharpoonup> pystr) \<Rightarrow> pystr" where
  "request_message json = dict_get json (str ''message'') []"

definition request_user_id :: "(pystr \<rightharpoonup> pystr) \<Rightarrow> pystr" where
  "request_user_id json = dict_get json (str ''user_id'') (str ''anon'')"

definition chatbot ::
  "llama \<Rightarrow> nat \<Rightarrow> (pystr \<rightharpoonup> pystr) \<Rightarrow> sessions \<Rightarrow> (error + pystr) \<times> sessions" where
  "chatbot llm hour json cc =
     (let user_msg = request_message json;
          user_id = request_user_id json
      in case handle_intents hour user_msg user_id of
           None \<Rightarrow> chatbot_fallback llm user_msg user_id cc
         | Some intent_reply \<Rightarrow>
             if intent_reply \<noteq> [] then (Inr intent_reply, cc)
             else chatbot_fallback llm user_msg user_id cc)"

text \<open>
  What a later request reads as the history of a user:
  \<^verbatim>\<open>conversation_context[user_id].get("history", [])\<close>, without the insertion.
\<close>

definition history_of :: "sessions \<Rightarrow> pystr \<Rightarrow> ChatMessage list" where
  "history_of cc user_id =
     (case cc user_id of None \<Rightarrow> [] | Some sess \<Rightarrow> dict_get sess (str ''history'') [])"

subsection \<open>Sequences of requests\<close>

text \<open>
  The server handles requests one after the other; a request that ends in an error
  is answered with status 500 and the server goes on. A request is the model's
  behaviour, the hour and the body.
\<close>

type_synonym request = "llama \<times> nat \<times> (pystr \<rightharpoonup> pystr)"

fun serve :: "request list \<Rightarrow> sessions \<Rightarrow> sessions" where
  "serve [] cc = cc"
| "serve ((llm, hour, json) # rs) cc = serve rs (snd (chatbot llm hour json cc))"

text \<open>
  The requests of the list, served in turn from \<open>cc\<close>, are all fallback round-trips
  of user \<open>k\<close>: sent by \<open>k\<close>, answered by no intent, and answered by the model.
\<close>

fun fallback_trips :: "pystr \<Rightarrow> request list \<Rightarrow> sessions \<Rightarrow> bool" where
  "fallback_trips k [] cc = True"
| "fallback_trips k ((llm, hour, json) # rs) cc =
     (request_user_id json = k \<and>
      handle_intents hour (request_message json) k = None \<and>
      \<not> isl (fst (chatbot llm hour json cc)) \<and>
      fallback_trips k rs (snd (chatbot llm hour json cc)))"

text \<open>
  What the callers saw while the list was served: each message that got a reply,
  and the reply, in the order of the requests.
\<close>

fun exchanges :: "request list \<Rightarrow> sessions \<Rightarrow> ChatMessage list" where
  "exchanges [] cc = []"
| "exchanges ((llm, hour, json) # rs) cc =
     (case fst (chatbot llm hour json cc) of
        Inl e \<Rightarrow> []
      | Inr reply \<Rightarrow> [\<lparr>role = str ''user'', content = request_message json\<rparr>,
                      \<lparr>role = str ''assistant'', content = reply\<rparr>])
     @ exchanges rs (snd (chatbot llm hour json cc))"

text \<open>User and assistant entries in turn, starting with a user entry.\<close>

fun alternating :: "ChatMessage list \<Rightarrow> bool" where
  "alternating [] = True"
| "alternating [m] = False"
| "alternating (u # a # ms) =
     (role u = str ''user'' \<and> role a = str ''assistant'' \<and> alternating ms)"

subsection \<open>The context window\<close>





subsection \<open>A stored session\<close>

text \<open>A history of four entries, as two earlier round-trips leave it.\<close>

definition four_entries :: "ChatMessage list" where
  "four_entries =
     [\<lparr>role = str ''user'', content = str ''do you deliver abroad''\<rparr>,
      \<lparr>role = str ''assistant'', content = str ''Yes.''\<rparr>,
      \<lparr>role = str ''user'', content = str ''how long''\<rparr>,
      \<lparr>role = str ''assistant'', content = str ''A week.''\<rparr>]"

section \<open>Auxiliary facts\<close>

lemma str_in_iff: "str_in needle hay \<longleftrightarrow> sublist needle hay"
  by (induction hay) (auto simp: sublist_Cons_right)

lemma length_last_n: "length (last_n n xs) = min (length xs) n"
  by (simp add: last_n_def)

lemma suffix_last_n: "suffix (last_n n xs) xs"
  by (simp add: last_n_def suffix_drop)

lemma last_n_last_n_append: "last_n n (last_n n xs @ ys) = last_n n (xs @ ys)"
proof (cases "length xs \<le> n")
  case True
  then show ?thesis by (simp add: last_n_def)
next
  case False
  then have "length xs + length ys - n = (length xs - n) + length ys" by simp
  with False show ?thesis by (simp add: last_n_def add.commute)
qed

lemma last_last_n: "xs \<noteq> [] \<Longrightarrow> 0 < n \<Longrightarrow> last (last_n n xs) = last xs"
  by (simp add: last_n_def)

lemma defaultdict_get_None:
  "cc u = None \<Longrightarrow> defaultdict_get cc u = (Map.empty, cc(u \<mapsto> Map.empty))"
  by (simp add: defaultdict_get_def)

lemma defaultdict_get_Some:
  "cc u = Some d \<Longrightarrow> defaultdict_get cc u = (d, cc)"
  by (simp add: defaultdict_get_def)

lemma history_of_None: "cc u = None \<Longrightarrow> history_of cc u = []"
  by (simp add: history_of_def)

lemma history_of_Some: "cc u = Some d \<Longrightarrow> history_of cc u = dict_get d (str ''history'') []"
  by (simp add: history_of_def)

lemma history_of_upd:
  "history_of (cc(u \<mapsto> d)) k = (if k = u then dict_get d (str ''history'') [] else history_of cc k)"
  by (simp add: history_of_def)

lemma dict_get_upd: "dict_get (d(k \<mapsto> v)) k dflt = v"
  by (simp add: dict_get_def)

lemma dict_get_empty: "dict_get Map.empty k dflt = dflt"
  by (simp add: dict_get_def)


lemma chatbot_fallback_None:
  assumes "cc u = None"
  shows "chatbot_fallback llm msg u cc =
     (case fst (llama_chat llm msg []) of
        Inl e \<Rightarrow> (Inl e, cc(u \<mapsto> Map.empty))
      | Inr r \<Rightarrow> (Inr r, cc(u \<mapsto> [(str ''history'') \<mapsto>
           last_n 10 ([] @ [\<lparr>role = (str ''user''), content = msg\<rparr>, \<lparr>role = (str ''assistant''), content = r\<rparr>])])))"
  using assms unfolding chatbot_fallback_def
  by (simp add: defaultdict_get_def dict_get_empty split: sum.splits)

lemma chatbot_fallback_Some:
  assumes "cc u = Some d"
  shows "chatbot_fallback llm msg u cc =
     (case fst (llama_chat llm msg (dict_get d (str ''history'') [])) of
        Inl e \<Rightarrow> (Inl e, cc)
      | Inr r \<Rightarrow> (Inr r, cc(u \<mapsto> d((str ''history'') \<mapsto>
           last_n 10 (dict_get d (str ''history'') [] @
              [\<lparr>role = (str ''user''), content = msg\<rparr>, \<lparr>role = (str ''assistant''), content = r\<rparr>])))))"
  using assms unfolding chatbot_fallback_def
  by (simp add: defaultdict_get_def split: sum.splits)

lemma fallback_error:
  assumes "fst (llama_chat llm msg (history_of cc u)) = Inl e"
  shows "fst (chatbot_fallback llm msg u cc) = Inl e"
    and "history_of (snd (chatbot_fallback llm msg u cc)) k = history_of cc k"
proof -
  show "fst (chatbot_fallback llm msg u cc) = Inl e"
  proof (cases "cc u")
    case None
    with assms show ?thesis by (simp add: chatbot_fallback_None history_of_None)
  next
    case (Some d)
    with assms show ?thesis by (simp add: chatbot_fallback_Some history_of_Some)
  qed
  show "history_of (snd (chatbot_fallback llm msg u cc)) k = history_of cc k"
  proof (cases "cc u")
    case None
    with assms show ?thesis
      by (simp add: chatbot_fallback_None history_of_None history_of_upd dict_get_empty)
  next
    case (Some d)
    with assms show ?thesis by (simp add: chatbot_fallback_Some history_of_Some)
  qed
qed

lemma fallback_reply:
  assumes "fst (llama_chat llm msg (history_of cc u)) = Inr r"
  shows "fst (chatbot_fallback llm msg u cc) = Inr r"
    and "history_of (snd (chatbot_fallback llm msg u cc)) k =
      (if k = u
       then last_n 10 (history_of cc u @
              [\<lparr>role = (str ''user''), content = msg\<rparr>, \<lparr>role = (str ''assistant''), content = r\<rparr>])
       else history_of cc k)"
proof -
  show "fst (chatbot_fallback llm msg u cc) = Inr r"
  proof (cases "cc u")
    case None
    with assms show ?thesis by (simp add: chatbot_fallback_None history_of_None)
  next
    case (Some d)
    with assms show ?thesis by (simp add: chatbot_fallback_Some history_of_Some)
  qed
  show "history_of (snd (chatbot_fallback llm msg u cc)) k =
      (if k = u
       then last_n 10 (history_of cc u @
              [\<lparr>role = (str ''user''), content = msg\<rparr>, \<lparr>role = (str ''assistant''), content = r\<rparr>])
       else history_of cc k)"
  proof (cases "cc u")
    case None
    with assms show ?thesis
      by (simp add: chatbot_fallback_None history_of_None history_of_upd dict_get_upd)
  next
    case (Some d)
    with assms show ?thesis
      by (simp add: chatbot_fallback_Some history_of_Some history_of_upd dict_get_upd)
  qed
qed

lemma handle_intents_nonempty: "handle_intents hour s u = Some r \<Longrightarrow> r \<noteq> []"
  by (auto simp: handle_intents_def greet_reply_def Let_def good_morning_def good_afternoon_def
      good_evening_def price_reply_def str_def split: if_splits)

lemma handle_intents_None_iff: "handle_intents hour s u = None \<longleftrightarrow> detect_intent s = None"
  by (auto simp: handle_intents_def detect_intent_def Let_def split: if_splits)

lemma chatbot_intent:
  "handle_intents hour (request_message json) (request_user_id json) = Some r \<Longrightarrow>
   chatbot llm hour json cc = (Inr r, cc)"
  by (simp add: chatbot_def handle_intents_nonempty)

lemma chatbot_no_intent:
  "handle_intents hour (request_message json) (request_user_id json) = None \<Longrightarrow>
   chatbot llm hour json cc =
     chatbot_fallback llm (request_message json) (request_user_id json) cc"
  by (simp add: chatbot_def)

lemma greet_reply_not_price: "greet_reply hour \<noteq> price_reply"
  by (simp add: greet_reply_def good_morning_def good_afternoon_def good_evening_def
      price_reply_def str_def)

lemma detect_intent_greet:
  "str_in (str ''hi'') (lower s) \<or> str_in (str ''hello'') (lower s) \<or> str_in (str ''hey'') (lower s) \<Longrightarrow>
   detect_intent s = Some (str ''greet'')"
  by (auto simp: detect_intent_def)

lemma rev_drop_take_While: "rev (dropWhile P (rev xs)) @ rev (takeWhile P (rev xs)) = xs"
proof -
  have "rev (takeWhile P (rev xs) @ dropWhile P (rev xs)) = rev (rev xs)"
    by (simp only: takeWhile_dropWhile_id)
  then show ?thesis by (simp only: rev_append rev_rev_ident)
qed

lemma takeWhile_dropWhile_Nil: "takeWhile P (dropWhile P xs) = []"
  by (induction xs) auto

lemma strip_split:
  "s = takeWhile isspace s @ strip s @ rev (takeWhile isspace (rev (dropWhile isspace s)))"
proof -
  let ?d = "dropWhile isspace s"
  have "strip s @ rev (takeWhile isspace (rev ?d)) = ?d"
    unfolding strip_def by (rule rev_drop_take_While)
  then show ?thesis by simp
qed

lemma strip_surrounded:
  "\<exists>l r. list_all isspace l \<and> list_all isspace r \<and> s = l @ strip s @ r"
proof -
  have "list_all isspace (takeWhile isspace s)"
    by (simp add: list_all_iff) (meson set_takeWhileD)
  moreover have "list_all isspace (rev (takeWhile isspace (rev (dropWhile isspace s))))"
    by (simp add: list_all_iff) (meson set_takeWhileD)
  ultimately show ?thesis using strip_split by blast
qed

lemma strip_no_trailing: "takeWhile isspace (rev (strip s)) = []"
  by (simp add: strip_def takeWhile_dropWhile_Nil)

lemma strip_no_leading: "takeWhile isspace (strip s) = []"
proof (cases "strip s")
  case Nil
  then show ?thesis by simp
next
  case (Cons c cs)
  let ?d = "dropWhile isspace s"
  have "strip s @ rev (takeWhile isspace (rev ?d)) = ?d"
    unfolding strip_def by (rule rev_drop_take_While)
  with Cons have d: "?d = c # cs @ rev (takeWhile isspace (rev ?d))" by simp
  then have "?d \<noteq> []" by (metis list.distinct(1))
  then have "\<not> isspace (hd ?d)" by (rule hd_dropWhile)
  moreover from d have "hd ?d = c" by (metis list.sel(1))
  ultimately show ?thesis using Cons by simp
qed

lemma json_keys_differ:
  "str ''message'' \<noteq> str ''user_id''" "str ''user_id'' \<noteq> str ''message''"
  by (simp_all add: str_def)

lemma coconut_no_intent: "detect_intent (str ''tell me about coconut oil'') = None"
  by (simp add: detect_intent_def lower_def to_lower_full_def str_def)

lemma alternating_even: "alternating xs \<Longrightarrow> even (length xs)"
  by (induction xs rule: alternating.induct) auto

lemma alternating_append:
  "alternating xs \<Longrightarrow> alternating ys \<Longrightarrow> alternating (xs @ ys)"
  by (induction xs rule: alternating.induct) auto

lemma alternating_drop: "alternating xs \<Longrightarrow> alternating (drop (2 * n) xs)"
proof (induction n arbitrary: xs)
  case 0
  then show ?case by simp
next
  case (Suc n)
  show ?case
  proof (cases xs rule: alternating.cases)
    case 1
    then show ?thesis by simp
  next
    case (2 m)
    with Suc.prems show ?thesis by simp
  next
    case (3 u a ms)
    with Suc.prems have "alternating ms" by simp
    then have "alternating (drop (2 * n) ms)" by (rule Suc.IH)
    with 3 show ?thesis by simp
  qed
qed

lemma alternating_last_n:
  assumes "alternating xs" and "even n"
  shows "alternating (last_n n xs)"
proof -
  from assms have e: "even (length xs - n)" by (simp add: alternating_even)
  obtain k where "length xs - n = 2 * k" using e by (rule evenE)
  with alternating_drop [OF assms(1), of k] show ?thesis by (simp add: last_n_def)
qed

lemma alternating_write:
  assumes "alternating h"
  shows "alternating (last_n 10 (h @ [\<lparr>role = (str ''user''), content = m\<rparr>,
                                      \<lparr>role = (str ''assistant''), content = r\<rparr>]))"
proof -
  have "alternating [\<lparr>role = (str ''user''), content = m\<rparr>, \<lparr>role = (str ''assistant''), content = r\<rparr>]"
    by simp
  with assms have "alternating (h @ [\<lparr>role = (str ''user''), content = m\<rparr>,
                                     \<lparr>role = (str ''assistant''), content = r\<rparr>])"
    by (rule alternating_append)
  then show ?thesis by (rule alternating_last_n) simp
qed

lemma chatbot_keeps_alternating:
  assumes "\<And>k. alternating (history_of cc k)"
  shows "alternating (history_of (snd (chatbot llm hour json cc)) k)"
proof (cases "handle_intents hour (request_message json) (request_user_id json)")
  case (Some r)
  then have "chatbot llm hour json cc = (Inr r, cc)" by (rule chatbot_intent)
  with assms show ?thesis by simp
next
  case None
  let ?u = "request_user_id json" and ?m = "request_message json"
  from None have c: "chatbot llm hour json cc = chatbot_fallback llm ?m ?u cc"
    by (rule chatbot_no_intent)
  show ?thesis
  proof (cases "fst (llama_chat llm ?m (history_of cc ?u))")
    case (Inl e)
    from fallback_error(2) [OF Inl] c assms show ?thesis by simp
  next
    case (Inr r)
    from fallback_reply(2) [OF Inr, of k] c assms alternating_write [OF assms, of ?u ?m r]
    show ?thesis by simp
  qed
qed

lemma serve_keeps_alternating:
  "(\<And>k. alternating (history_of cc k)) \<Longrightarrow> alternating (history_of (serve rs cc) k)"
proof (induction rs arbitrary: cc)
  case Nil
  then show ?case by simp
next
  case (Cons r rs)
  obtain llm hour json where r: "r = (llm, hour, json)" by (cases r)
  have "\<And>k. alternating (history_of (snd (chatbot llm hour json cc)) k)"
    using Cons.prems by (rule chatbot_keeps_alternating)
  then have "alternating (history_of (serve rs (snd (chatbot llm hour json cc))) k)"
    by (rule Cons.IH)
  with r show ?case by simp
qed

lemma serve_append: "serve (xs @ ys) cc = serve ys (serve xs cc)"
  by (induction xs arbitrary: cc) auto

lemma exchanges_append:
  "exchanges (xs @ ys) cc = exchanges xs cc @ exchanges ys (serve xs cc)"
  by (induction xs arbitrary: cc) auto

lemma fallback_trips_append:
  "fallback_trips k (xs @ ys) cc \<longleftrightarrow>
     fallback_trips k xs cc \<and> fallback_trips k ys (serve xs cc)"
  by (induction xs arbitrary: cc) auto

lemma trip_step:
  assumes "handle_intents hour (request_message json) (request_user_id json) = None"
    and "\<not> isl (fst (chatbot llm hour json cc))"
  shows "\<exists>reply. fst (chatbot llm hour json cc) = Inr reply \<and>
           history_of (snd (chatbot llm hour json cc)) (request_user_id json) =
             last_n 10 (history_of cc (request_user_id json) @
               [\<lparr>role = (str ''user''), content = request_message json\<rparr>,
                \<lparr>role = (str ''assistant''), content = reply\<rparr>])"
proof -
  let ?u = "request_user_id json" and ?m = "request_message json"
  from assms(1) have c: "chatbot llm hour json cc = chatbot_fallback llm ?m ?u cc"
    by (rule chatbot_no_intent)
  show ?thesis
  proof (cases "fst (llama_chat llm ?m (history_of cc ?u))")
    case (Inl e)
    from fallback_error(1) [OF Inl] c assms(2) show ?thesis by simp
  next
    case (Inr r)
    from fallback_reply(1) [OF Inr] fallback_reply(2) [OF Inr, where k = ?u] c
    show ?thesis by simp
  qed
qed

lemma trip_single:
  assumes "fallback_trips k [r] cc"
  shows "length (exchanges [r] cc) = 2 \<and>
         history_of (serve [r] cc) k = last_n 10 (history_of cc k @ exchanges [r] cc)"
proof -
  obtain llm hour json where r: "r = (llm, hour, json)" by (cases r)
  from assms r have u: "request_user_id json = k"
    and h: "handle_intents hour (request_message json) (request_user_id json) = None"
    and ok: "\<not> isl (fst (chatbot llm hour json cc))"
    by simp_all
  from trip_step [OF h ok] u r show ?thesis by auto
qed

lemma trips_history:
  "fallback_trips k rs cc \<Longrightarrow> rs \<noteq> [] \<Longrightarrow>
   history_of (serve rs cc) k = last_n 10 (history_of cc k @ exchanges rs cc)"
proof (induction rs arbitrary: cc)
  case Nil
  then show ?case by simp
next
  case (Cons r rs)
  let ?cc = "serve [r] cc"
  from Cons.prems(1) have "fallback_trips k ([r] @ rs) cc" by simp
  then have one: "fallback_trips k [r] cc" and rest: "fallback_trips k rs ?cc"
    unfolding fallback_trips_append by simp_all
  from trip_single [OF one]
  have h1: "history_of ?cc k = last_n 10 (history_of cc k @ exchanges [r] cc)" by simp
  show ?case
  proof (cases "rs = []")
    case True
    with h1 show ?thesis by simp
  next
    case False
    have "history_of (serve rs ?cc) k = last_n 10 (history_of ?cc k @ exchanges rs ?cc)"
      using rest False by (rule Cons.IH)
    also have "\<dots> = last_n 10 ((history_of cc k @ exchanges [r] cc) @ exchanges rs ?cc)"
      unfolding h1 by (rule last_n_last_n_append)
    also have "\<dots> = last_n 10 (history_of cc k @ exchanges ([r] @ rs) cc)"
      unfolding exchanges_append by simp
    finally show ?thesis using serve_append [of "[r]" rs cc] by simp
  qed
qed

lemma trips_each_write:
  assumes "fallback_trips k rs cc" and "n < length rs"
  shows "length (history_of (serve (take (Suc n) rs) cc) k) =
           min (length (history_of (serve (take n rs) cc) k) + 2) 10 \<and>
         length (history_of (serve (take (Suc n) rs) cc) k) \<le> 10 \<and>
         history_of (serve (take (Suc n) rs) cc) k =
           last_n 10 (history_of (serve (take n rs) cc) k @
                      exchanges [rs ! n] (serve (take n rs) cc))"
proof -
  let ?cc = "serve (take n rs) cc"
  from assms(2) have t: "take (Suc n) rs = take n rs @ [rs ! n]"
    by (rule take_Suc_conv_app_nth)
  have "rs = take (Suc n) rs @ drop (Suc n) rs" by simp
  with assms(1) have "fallback_trips k (take (Suc n) rs @ drop (Suc n) rs) cc" by simp
  then have "fallback_trips k (take (Suc n) rs) cc"
    unfolding fallback_trips_append by simp
  then have one: "fallback_trips k [rs ! n] ?cc"
    unfolding t fallback_trips_append by simp
  have s: "serve (take (Suc n) rs) cc = serve [rs ! n] ?cc"
    unfolding t by (rule serve_append)
  from trip_single [OF one] s show ?thesis by (simp add: length_last_n)
qed

lemma chatbot_constant_llm:
  assumes "handle_intents hour (request_message json) (request_user_id json) = None"
  shows "fst (chatbot (\<lambda>messages stream. Inr out) hour json cc) = Inr (strip out)"
proof -
  have "fst (llama_chat (\<lambda>messages stream. Inr out) (request_message json)
          (history_of cc (request_user_id json))) = Inr (strip out)"
    by (simp add: llama_chat_def)
  from fallback_reply(1) [OF this] chatbot_no_intent [OF assms] show ?thesis by simp
qed

lemma more_no_intent: "detect_intent (str ''and for cooking?'') = None"
  by (simp add: detect_intent_def lower_def to_lower_full_def str_def)

lemma price_only_intent: "detect_intent (str ''What is the PRICE'') = Some (str ''price'')"
  by (simp add: detect_intent_def lower_def to_lower_full_def str_def)

lemma dotted_I_intent: "detect_intent (str ''H'' @ [0x130] @ str '' price'') = Some (str ''greet'')"
  by (simp add: detect_intent_def lower_def to_lower_full_def str_def)

lemma intent_names_differ: "str ''price'' \<noteq> str ''greet''"
  by (simp add: str_def)

lemma detect_intent_price:
  "\<not> greet_matches s \<Longrightarrow> price_matches s \<Longrightarrow> detect_intent s = Some (str ''price'')"
  by (simp add: detect_intent_def)

lemma detect_intent_none:
  "\<not> greet_matches s \<Longrightarrow> \<not> price_matches s \<Longrightarrow> detect_intent s = None"
  by (simp add: detect_intent_def)

lemma between_same: "(n \<le> c \<and> c \<le> n) \<longleftrightarrow> c = (n::nat)"
  by auto

lemma if_True_else: "(if P then True else Q) \<longleftrightarrow> P \<or> Q"
  by simp

lemma isspace_iff:
  "isspace c \<longleftrightarrow>
     c \<in> {0x09..0x0D} \<union> {0x1C..0x20} \<union> {0x85, 0xA0, 0x1680} \<union> {0x2000..0x200A}
         \<union> {0x2028..0x2029} \<union> {0x202F, 0x205F, 0x3000}"
  unfolding isspace_def space_ranges_def in_ranges.simps
  by (simp only: between_same if_True_else Un_iff atLeastAtMost_iff insert_iff empty_iff
      simp_thms disj_assoc)

lemma strip_ends:
  "strip s = [] \<or> \<not> isspace (hd (strip s)) \<and> \<not> isspace (last (strip s))"
proof (cases "strip s = []")
  case True
  then show ?thesis by simp
next
  case False
  from strip_no_leading [of s] False have "\<not> isspace (hd (strip s))"
    by (simp add: takeWhile_eq_Nil_iff)
  moreover from strip_no_trailing [of s] False have "\<not> isspace (hd (rev (strip s)))"
    by (simp add: takeWhile_eq_Nil_iff)
  ultimately show ?thesis using False by (simp add: hd_rev)
qed

section \<open>The claims\<close>

text \<open>
  C3. A message that matches an intent rule is answered by the rule's responder and
  \<^verbatim>\<open>conversation_context\<close> is exactly what it was before the call: no session is
  created, and the history of every user is unchanged.
\<close>

theorem intent_reply_leaves_store:
  assumes "detect_intent (request_message json) \<noteq> None"
  shows "\<exists>r. handle_intents hour (request_message json) (request_user_id json) = Some r \<and>
             chatbot llm hour json cc = (Inr r, cc) \<and>
             (\<forall>k. history_of (snd (chatbot llm hour json cc)) k = history_of cc k)"
proof -
  from assms obtain r
    where r: "handle_intents hour (request_message json) (request_user_id json) = Some r"
    using handle_intents_None_iff by fastforce
  then have "chatbot llm hour json cc = (Inr r, cc)" by (rule chatbot_intent)
  with r show ?thesis by simp
qed

theorem intent_reply_leaves_store_witness:
  "detect_intent (request_message
       [str ''message'' \<mapsto> str ''What is the PRICE'', str ''user_id'' \<mapsto> str ''u1'']) \<noteq> None \<and>
   chatbot (\<lambda>messages stream. Inr (str ''unused'')) 9
       [str ''message'' \<mapsto> str ''What is the PRICE'', str ''user_id'' \<mapsto> str ''u1'']
       [str ''u1'' \<mapsto> [str ''history'' \<mapsto> four_entries]]
     = (Inr price_reply, [str ''u1'' \<mapsto> [str ''history'' \<mapsto> four_entries]]) \<and>
   detect_intent (request_message
       [str ''message'' \<mapsto> str ''H'' @ [0x130] @ str '' price'']) \<noteq> None \<and>
   chatbot (\<lambda>messages stream. Inr (str ''unused'')) 9
       [str ''message'' \<mapsto> str ''H'' @ [0x130] @ str '' price''] Map.empty
     = (Inr (greet_reply 9), Map.empty)"
proof -
  let ?j1 = "[str ''message'' \<mapsto> str ''What is the PRICE'', str ''user_id'' \<mapsto> str ''u1'']"
  let ?j2 = "[str ''message'' \<mapsto> str ''H'' @ [0x130] @ str '' price'']"
  let ?llm = "\<lambda>messages stream. Inr (str ''unused'') :: error + pystr"
  let ?cc = "[str ''u1'' \<mapsto> [str ''history'' \<mapsto> four_entries]]"
  have m1: "request_message ?j1 = str ''What is the PRICE''"
    by (simp add: request_message_def dict_get_def str_def)
  have m2: "request_message ?j2 = str ''H'' @ [0x130] @ str '' price''"
    by (simp add: request_message_def dict_get_def)
  have h1: "detect_intent (request_message ?j1) \<noteq> None"
    by (simp add: m1 price_only_intent)
  have h2: "detect_intent (request_message ?j2) \<noteq> None"
    by (simp only: m2 dotted_I_intent) simp
  have p1: "handle_intents 9 (request_message ?j1) (request_user_id ?j1) = Some price_reply"
    by (simp add: m1 handle_intents_def price_only_intent intent_names_differ)
  have p2: "handle_intents 9 (request_message ?j2) (request_user_id ?j2) = Some (greet_reply 9)"
    by (simp only: m2 handle_intents_def dotted_I_intent Let_def) simp
  from intent_reply_leaves_store [OF h1, of 9 ?llm ?cc] p1
  have c1: "chatbot ?llm 9 ?j1 ?cc = (Inr price_reply, ?cc)" by auto
  from intent_reply_leaves_store [OF h2, of 9 ?llm Map.empty] p2
  have c2: "chatbot ?llm 9 ?j2 Map.empty = (Inr (greet_reply 9), Map.empty)" by auto
  from h1 c1 h2 c2 show ?thesis by blast
qed

text \<open>
  C5. The rules are tried in the order they are written, greet before price, and
  the first that holds wins. A text that satisfies both predicates is detected as
  greet and answered by the greet responder, not the price responder; a text that
  satisfies only the price predicate gets the price reply; a text that satisfies
  neither gets no intent reply.
\<close>

theorem first_rule_wins:
  "(greet_matches s \<and> price_matches s \<longrightarrow>
      detect_intent s = Some (str ''greet'') \<and>
      handle_intents hour s user_id = Some (greet_reply hour) \<and>
      handle_intents hour s user_id \<noteq> Some price_reply) \<and>
   (greet_matches s \<longrightarrow>
      detect_intent s = Some (str ''greet'') \<and>
      handle_intents hour s user_id = Some (greet_reply hour)) \<and>
   (\<not> greet_matches s \<and> price_matches s \<longrightarrow>
      detect_intent s = Some (str ''price'') \<and>
      handle_intents hour s user_id = Some price_reply) \<and>
   (\<not> greet_matches s \<and> \<not> price_matches s \<longrightarrow>
      detect_intent s = None \<and> handle_intents hour s user_id = None)"
proof -
  have g: "detect_intent s = Some (str ''greet'') \<and>
      handle_intents hour s user_id = Some (greet_reply hour) \<and>
      handle_intents hour s user_id \<noteq> Some price_reply"
    if "greet_matches s"
  proof -
    have "detect_intent s = Some (str ''greet'')" using that by (rule detect_intent_greet)
    then show ?thesis by (simp add: handle_intents_def greet_reply_not_price)
  qed
  have p: "detect_intent s = Some (str ''price'') \<and>
      handle_intents hour s user_id = Some price_reply"
    if "\<not> greet_matches s" and "price_matches s"
  proof -
    have "detect_intent s = Some (str ''price'')" using that by (rule detect_intent_price)
    then show ?thesis by (simp add: handle_intents_def intent_names_differ)
  qed
  have n: "detect_intent s = None \<and> handle_intents hour s user_id = None"
    if "\<not> greet_matches s" and "\<not> price_matches s"
  proof -
    have "detect_intent s = None" using that by (rule detect_intent_none)
    then show ?thesis by (simp add: handle_intents_def)
  qed
  from g p n show ?thesis by blast
qed

theorem first_rule_wins_witness:
  "greet_matches (str ''Hi, what is the PRICE of coconut oil?'') \<and>
   price_matches (str ''Hi, what is the PRICE of coconut oil?'') \<and>
   handle_intents 18 (str ''Hi, what is the PRICE of coconut oil?'') (str ''u1'')
     = Some (good_evening @ assistant_intro) \<and>
   greet_matches (str ''H'' @ [0x130] @ str '' price'') \<and>
   price_matches (str ''H'' @ [0x130] @ str '' price'') \<and>
   handle_intents 9 (str ''H'' @ [0x130] @ str '' price'') (str ''u1'')
     = Some (good_morning @ assistant_intro) \<and>
   \<not> greet_matches (str ''What is the PRICE'') \<and>
   price_matches (str ''What is the PRICE'') \<and>
   handle_intents 18 (str ''What is the PRICE'') (str ''u1'') = Some price_reply \<and>
   \<not> greet_matches (str ''tell me about coconut oil'') \<and>
   \<not> price_matches (str ''tell me about coconut oil'') \<and>
   handle_intents 18 (str ''tell me about coconut oil'') (str ''u1'') = None"
proof -
  let ?a = "str ''Hi, what is the PRICE of coconut oil?''"
  let ?b = "str ''H'' @ [0x130] @ str '' price''"
  let ?c = "str ''What is the PRICE''"
  let ?d = "str ''tell me about coconut oil''"
  have ga: "greet_matches ?a" and pa: "price_matches ?a"
    by (simp_all add: lower_def to_lower_full_def str_def)
  have gb: "greet_matches ?b" and pb: "price_matches ?b"
    by (simp_all add: lower_def to_lower_full_def str_def)
  have gc: "\<not> greet_matches ?c" and pc: "price_matches ?c"
    by (simp_all add: lower_def to_lower_full_def str_def)
  have gd: "\<not> greet_matches ?d" and pd: "\<not> price_matches ?d"
    by (simp_all add: lower_def to_lower_full_def str_def)
  have e: "greet_reply 18 = good_evening @ assistant_intro"
    and m: "greet_reply 9 = good_morning @ assistant_intro"
    by (simp_all add: greet_reply_def)
  from first_rule_wins [of ?a 18 "str ''u1''"] ga pa e
  have ra: "handle_intents 18 ?a (str ''u1'') = Some (good_evening @ assistant_intro)"
    by simp
  from first_rule_wins [of ?b 9 "str ''u1''"] gb pb m
  have rb: "handle_intents 9 ?b (str ''u1'') = Some (good_morning @ assistant_intro)"
    by simp
  from first_rule_wins [of ?c 18 "str ''u1''"] gc pc
  have rc: "handle_intents 18 ?c (str ''u1'') = Some price_reply"
    by simp
  from first_rule_wins [of ?d 18 "str ''u1''"] gd pd
  have rd: "handle_intents 18 ?d (str ''u1'') = None"
    by simp
  from ga pa ra gb pb rb gc pc rc gd pd rd show ?thesis by blast
qed

text \<open>
  C8. A message whose lower-cased form contains \<^verbatim>\<open>hi\<close>, \<^verbatim>\<open>hello\<close> or \<^verbatim>\<open>hey\<close>
  anywhere, also inside a longer word, is detected as greet: the caller gets the
  greeting whatever the model would have said, never the price reply, and the store
  is unchanged.
\<close>

theorem substring_greeting:
  assumes "kw \<in> {str ''hi'', str ''hello'', str ''hey''}"
    and "sublist kw (lower (request_message json))"
  shows "detect_intent (request_message json) = Some (str ''greet'') \<and>
         chatbot llm hour json cc = (Inr (greet_reply hour), cc) \<and>
         fst (chatbot llm hour json cc) \<noteq> Inr price_reply"
proof -
  from assms have "greet_matches (request_message json)"
    by (auto simp: str_in_iff)
  then have d: "detect_intent (request_message json) = Some (str ''greet'')"
    by (rule detect_intent_greet)
  then have "handle_intents hour (request_message json) (request_user_id json)
      = Some (greet_reply hour)"
    by (simp add: handle_intents_def)
  then have "chatbot llm hour json cc = (Inr (greet_reply hour), cc)" by (rule chatbot_intent)
  with d show ?thesis by (simp add: greet_reply_not_price)
qed

theorem substring_greeting_witness:
  "str ''hi'' \<in> {str ''hi'', str ''hello'', str ''hey''} \<and>
   sublist (str ''hi'') (lower (request_message
      [str ''message'' \<mapsto> str ''SHIPPING Price'', str ''user_id'' \<mapsto> str ''u7''])) \<and>
   chatbot (\<lambda>messages stream. Inr (str ''generated'')) 14
      [str ''message'' \<mapsto> str ''SHIPPING Price'', str ''user_id'' \<mapsto> str ''u7''] Map.empty
     = (Inr (good_afternoon @ assistant_intro), Map.empty) \<and>
   sublist (str ''hi'') (lower (request_message
      [str ''message'' \<mapsto> str ''H'' @ [0x130] @ str '' price''])) \<and>
   chatbot (\<lambda>messages stream. Inr (str ''generated'')) 14
      [str ''message'' \<mapsto> str ''H'' @ [0x130] @ str '' price''] Map.empty
     = (Inr (good_afternoon @ assistant_intro), Map.empty)"
proof -
  let ?j1 = "[str ''message'' \<mapsto> str ''SHIPPING Price'', str ''user_id'' \<mapsto> str ''u7'']"
  let ?j2 = "[str ''message'' \<mapsto> str ''H'' @ [0x130] @ str '' price'']"
  let ?llm = "\<lambda>messages stream. Inr (str ''generated'') :: error + pystr"
  have k: "str ''hi'' \<in> {str ''hi'', str ''hello'', str ''hey''}" by simp
  have m1: "request_message ?j1 = str ''SHIPPING Price''"
    by (simp add: request_message_def dict_get_def str_def)
  have m2: "request_message ?j2 = str ''H'' @ [0x130] @ str '' price''"
    by (simp add: request_message_def dict_get_def)
  have "str_in (str ''hi'') (lower (str ''SHIPPING Price''))"
    by (simp add: lower_def to_lower_full_def str_def)
  then have s1: "sublist (str ''hi'') (lower (request_message ?j1))"
    by (simp only: m1 str_in_iff)
  have "str_in (str ''hi'') (lower (str ''H'' @ [0x130] @ str '' price''))"
    by (simp add: lower_def to_lower_full_def str_def)
  then have s2: "sublist (str ''hi'') (lower (request_message ?j2))"
    by (simp only: m2 str_in_iff)
  have r: "greet_reply 14 = good_afternoon @ assistant_intro" by (simp add: greet_reply_def)
  from substring_greeting [OF k s1, of ?llm 14 Map.empty] r
  have c1: "chatbot ?llm 14 ?j1 Map.empty = (Inr (good_afternoon @ assistant_intro), Map.empty)"
    by simp
  from substring_greeting [OF k s2, of ?llm 14 Map.empty] r
  have c2: "chatbot ?llm 14 ?j2 Map.empty = (Inr (good_afternoon @ assistant_intro), Map.empty)"
    by simp
  from k s1 c1 s2 c2 show ?thesis by blast
qed

text \<open>
  C7. The message \<^verbatim>\<open>hi\<close> matches the greet intent at every hour. The reply starts
  with \<^verbatim>\<open>Good morning\<close> before 12, with \<^verbatim>\<open>Good afternoon\<close> from 12 and before 17,
  with \<^verbatim>\<open>Good evening\<close> from 17 on, and every history is unchanged: an empty one
  stays empty.
\<close>

theorem hi_is_greeted:
  assumes "request_message json = str ''hi''"
  shows "detect_intent (str ''hi'') = Some (str ''greet'') \<and>
         chatbot llm hour json cc = (Inr (greet_reply hour), cc) \<and>
         (hour < 12 \<longrightarrow> prefix (str ''Good morning'') (greet_reply hour)) \<and>
         (12 \<le> hour \<and> hour < 17 \<longrightarrow> prefix (str ''Good afternoon'') (greet_reply hour)) \<and>
         (17 \<le> hour \<longrightarrow> prefix (str ''Good evening'') (greet_reply hour)) \<and>
         history_of (snd (chatbot llm hour json cc)) k = history_of cc k \<and>
         (length (history_of cc k) = 0 \<longrightarrow> length (history_of (snd (chatbot llm hour json cc)) k) = 0)"
proof -
  have d: "detect_intent (str ''hi'') = Some (str ''greet'')"
    by (simp add: detect_intent_def lower_def to_lower_full_def str_def)
  with assms have "handle_intents hour (request_message json) (request_user_id json)
      = Some (greet_reply hour)"
    by (simp add: handle_intents_def)
  then have c: "chatbot llm hour json cc = (Inr (greet_reply hour), cc)" by (rule chatbot_intent)
  have m: "hour < 12 \<longrightarrow> prefix (str ''Good morning'') (greet_reply hour)"
    by (simp add: greet_reply_def good_morning_def str_def)
  have a: "12 \<le> hour \<and> hour < 17 \<longrightarrow> prefix (str ''Good afternoon'') (greet_reply hour)"
    by (simp add: greet_reply_def good_afternoon_def str_def)
  have e: "17 \<le> hour \<longrightarrow> prefix (str ''Good evening'') (greet_reply hour)"
    by (simp add: greet_reply_def good_evening_def str_def)
  from d c m a e show ?thesis by simp
qed

theorem hi_is_greeted_witness:
  "request_message [str ''message'' \<mapsto> str ''hi''] = str ''hi'' \<and>
   chatbot (\<lambda>messages stream. Inl LlamaError) 9 [str ''message'' \<mapsto> str ''hi''] Map.empty
     = (Inr (good_morning @ assistant_intro), Map.empty) \<and>
   greet_reply 9 = str ''Good morning '' @ [0x2600, 0xFE0F, 0xA0] @ str ''I'' @ [0x27]
     @ str ''m Isvaryam'' @ [0x27] @ str ''s assistant. How can I help you?'' \<and>
   prefix (str ''Good morning'') (greet_reply 9) \<and>
   prefix (str ''Good afternoon'') (greet_reply 14) \<and>
   prefix (str ''Good evening'') (greet_reply 20) \<and>
   length (history_of (snd (chatbot (\<lambda>messages stream. Inl LlamaError) 9
       [str ''message'' \<mapsto> str ''hi''] Map.empty)) (str ''anon'')) = 0"
proof -
  let ?json = "[str ''message'' \<mapsto> str ''hi'']"
  let ?llm = "\<lambda>messages stream. Inl LlamaError :: error + pystr"
  have j: "request_message ?json = str ''hi''" by (simp add: request_message_def dict_get_def)
  have r: "greet_reply 9 = good_morning @ assistant_intro" by (simp add: greet_reply_def)
  have h: "length (history_of Map.empty (str ''anon'')) = 0" by (simp add: history_of_def)
  have g: "greet_reply 9 = str ''Good morning '' @ [0x2600, 0xFE0F, 0xA0] @ str ''I'' @ [0x27]
     @ str ''m Isvaryam'' @ [0x27] @ str ''s assistant. How can I help you?''"
    by (simp add: greet_reply_def good_morning_def assistant_intro_def)
  show ?thesis
    using j r h g
      hi_is_greeted [OF j, of ?llm 9 Map.empty "str ''anon''"]
      hi_is_greeted [OF j, of ?llm 14 Map.empty "str ''anon''"]
      hi_is_greeted [OF j, of ?llm 20 Map.empty "str ''anon''"]
    by simp
qed

text \<open>
  C10. When a request takes the fallback path and the model answers, the reply
  returned to the caller is the content of the last entry of the history stored for
  that user by this request, and that entry has the assistant role.
\<close>

theorem reply_is_last_stored:
  assumes "handle_intents hour (request_message json) (request_user_id json) = None"
    and "chatbot llm hour json cc = (Inr reply, cc')"
  shows "history_of cc' (request_user_id json) \<noteq> [] \<and>
         content (last (history_of cc' (request_user_id json))) = reply \<and>
         role (last (history_of cc' (request_user_id json))) = (str ''assistant'')"
proof -
  let ?u = "request_user_id json" and ?m = "request_message json"
  from assms have f: "chatbot_fallback llm ?m ?u cc = (Inr reply, cc')"
    by (simp add: chatbot_no_intent)
  have ok: "fst (llama_chat llm ?m (history_of cc ?u)) = Inr reply"
  proof (cases "fst (llama_chat llm ?m (history_of cc ?u))")
    case (Inl e)
    from fallback_error(1) [OF Inl] f show ?thesis by simp
  next
    case (Inr r)
    from fallback_reply(1) [OF Inr] f show ?thesis using Inr by simp
  qed
  let ?full = "history_of cc ?u @
      [\<lparr>role = str ''user'', content = ?m\<rparr>, \<lparr>role = str ''assistant'', content = reply\<rparr>]"
  from fallback_reply(2) [OF ok, of ?u] f
  have h: "history_of cc' ?u = last_n 10 ?full" by simp
  have n: "last_n 10 ?full \<noteq> []" by (simp add: last_n_def)
  have "last (last_n 10 ?full) = last ?full" by (rule last_last_n) simp_all
  then have l: "last (last_n 10 ?full) = \<lparr>role = str ''assistant'', content = reply\<rparr>" by simp
  from h n l show ?thesis by simp
qed

theorem reply_is_last_stored_witness:
  "handle_intents 9 (request_message [str ''message'' \<mapsto> str ''tell me about coconut oil'', str ''user_id'' \<mapsto> str ''u2''])
      (request_user_id [str ''message'' \<mapsto> str ''tell me about coconut oil'', str ''user_id'' \<mapsto> str ''u2'']) = None \<and>
   chatbot (\<lambda>messages stream. Inr (str '' It is cold pressed. '')) 9
      [str ''message'' \<mapsto> str ''tell me about coconut oil'', str ''user_id'' \<mapsto> str ''u2''] Map.empty
     = (Inr (str ''It is cold pressed.''),
        [str ''u2'' \<mapsto> [str ''history'' \<mapsto>
           [\<lparr>role = str ''user'', content = str ''tell me about coconut oil''\<rparr>,
            \<lparr>role = str ''assistant'', content = str ''It is cold pressed.''\<rparr>]]]) \<and>
   content (last (history_of
        [str ''u2'' \<mapsto> [str ''history'' \<mapsto>
           [\<lparr>role = str ''user'', content = str ''tell me about coconut oil''\<rparr>,
            \<lparr>role = str ''assistant'', content = str ''It is cold pressed.''\<rparr>]]]
        (request_user_id [str ''message'' \<mapsto> str ''tell me about coconut oil'', str ''user_id'' \<mapsto> str ''u2''])))
     = (str ''It is cold pressed.'')"
proof -
  let ?json = "[str ''message'' \<mapsto> str ''tell me about coconut oil'', str ''user_id'' \<mapsto> str ''u2'']"
  let ?llm = "\<lambda>messages stream. Inr (str '' It is cold pressed. '') :: error + pystr"
  have m: "request_message ?json = (str ''tell me about coconut oil'')"
    by (simp add: request_message_def dict_get_def json_keys_differ)
  have u: "request_user_id ?json = (str ''u2'')"
    by (simp add: request_user_id_def dict_get_def json_keys_differ)
  have d: "detect_intent (str ''tell me about coconut oil'') = None"
    by (simp add: detect_intent_def lower_def to_lower_full_def str_def)
  have h: "handle_intents 9 (request_message ?json) (request_user_id ?json) = None"
    by (simp add: m handle_intents_def d)
  have s: "strip (str '' It is cold pressed. '') = (str ''It is cold pressed.'')"
    by (simp add: strip_def isspace_def space_ranges_def str_def)
  have l: "fst (llama_chat ?llm (str ''tell me about coconut oil'') []) = Inr (str ''It is cold pressed.'')"
    by (simp add: llama_chat_def s)
  have f: "chatbot_fallback ?llm (str ''tell me about coconut oil'') (str ''u2'') Map.empty
     = (Inr (str ''It is cold pressed.''),
        [str ''u2'' \<mapsto> [str ''history'' \<mapsto>
           [\<lparr>role = str ''user'', content = str ''tell me about coconut oil''\<rparr>,
            \<lparr>role = str ''assistant'', content = str ''It is cold pressed.''\<rparr>]]])"
    by (simp add: chatbot_fallback_None l last_n_def)
  have c: "chatbot ?llm 9 ?json Map.empty
     = (Inr (str ''It is cold pressed.''),
        [str ''u2'' \<mapsto> [str ''history'' \<mapsto>
           [\<lparr>role = str ''user'', content = str ''tell me about coconut oil''\<rparr>,
            \<lparr>role = str ''assistant'', content = str ''It is cold pressed.''\<rparr>]]])"
    using h f by (simp add: chatbot_no_intent m u)
  show ?thesis using h c reply_is_last_stored [OF h c] by simp
qed

text \<open>
  C6. \<^verbatim>\<open>llama_chat\<close> makes exactly one request of the model: the history followed
  by one user entry that holds the new message, with \<^verbatim>\<open>stream=False\<close>. An error of
  the model is passed on. An output of the model is returned stripped: the output is
  the reply between two runs of white space, and the reply is empty or neither starts
  nor ends with white space. White space is what \<^verbatim>\<open>str.isspace\<close> accepts: the
  code points listed.
\<close>

theorem llama_chat_prompt_and_strip:
  "snd (llama_chat llm user_msg history)
     = [(history @ [\<lparr>role = str ''user'', content = user_msg\<rparr>], False)] \<and>
   (\<forall>e. llm (history @ [\<lparr>role = str ''user'', content = user_msg\<rparr>]) False = Inl e \<longrightarrow>
        fst (llama_chat llm user_msg history) = Inl e) \<and>
   (\<forall>out. llm (history @ [\<lparr>role = str ''user'', content = user_msg\<rparr>]) False = Inr out \<longrightarrow>
        (\<exists>reply l r.
            fst (llama_chat llm user_msg history) = Inr reply \<and>
            out = l @ reply @ r \<and> list_all isspace l \<and> list_all isspace r \<and>
            (reply = [] \<or> \<not> isspace (hd reply) \<and> \<not> isspace (last reply)))) \<and>
   (isspace c \<longleftrightarrow>
      c \<in> {0x09..0x0D} \<union> {0x1C..0x20} \<union> {0x85, 0xA0, 0x1680} \<union> {0x2000..0x200A}
          \<union> {0x2028..0x2029} \<union> {0x202F, 0x205F, 0x3000})"
proof -
  let ?p = "history @ [\<lparr>role = str ''user'', content = user_msg\<rparr>]"
  have a: "snd (llama_chat llm user_msg history) = [(?p, False)]"
    by (simp add: llama_chat_def Let_def)
  have b: "fst (llama_chat llm user_msg history) = Inl e" if "llm ?p False = Inl e" for e
    using that by (simp add: llama_chat_def Let_def)
  have c: "\<exists>reply l r.
            fst (llama_chat llm user_msg history) = Inr reply \<and>
            out = l @ reply @ r \<and> list_all isspace l \<and> list_all isspace r \<and>
            (reply = [] \<or> \<not> isspace (hd reply) \<and> \<not> isspace (last reply))"
    if "llm ?p False = Inr out" for out
  proof -
    from that have "fst (llama_chat llm user_msg history) = Inr (strip out)"
      by (simp add: llama_chat_def Let_def)
    moreover obtain l r where "list_all isspace l" "list_all isspace r" "out = l @ strip out @ r"
      using strip_surrounded [of out] by blast
    ultimately show ?thesis using strip_ends [of out] by blast
  qed
  from a b c isspace_iff [of c] show ?thesis by blast
qed

theorem llama_chat_prompt_and_strip_witness:
  "llama_chat
      (\<lambda>messages stream.
         if stream then Inl LlamaError
         else Inr ([0xA0, 0x2003, 0x09] @ concat (map (\<lambda>m. content m @ str ''| '') messages)
                   @ [0x0A, 0x3000, 0x85]))
      (str ''and more?'')
      [\<lparr>role = str ''user'', content = str ''oil?''\<rparr>,
       \<lparr>role = str ''assistant'', content = str ''yes''\<rparr>]
     = (Inr (str ''oil?| yes| and more?|''),
        [([\<lparr>role = str ''user'', content = str ''oil?''\<rparr>,
           \<lparr>role = str ''assistant'', content = str ''yes''\<rparr>,
           \<lparr>role = str ''user'', content = str ''and more?''\<rparr>], False)]) \<and>
   fst (llama_chat (\<lambda>messages stream. Inr ([0x200B] @ str '' ok'' @ [0xA0])) (str ''and more?'') [])
     = Inr ([0x200B] @ str '' ok'') \<and>
   llama_chat (\<lambda>messages stream. if stream then Inr (str ''streamed'') else Inl LlamaError)
      (str ''and more?'') []
     = (Inl LlamaError, [([\<lparr>role = str ''user'', content = str ''and more?''\<rparr>], False)])"
proof -
  let ?l1 = "\<lambda>messages stream.
         if stream then Inl LlamaError
         else Inr ([0xA0, 0x2003, 0x09] @ concat (map (\<lambda>m. content m @ str ''| '') messages)
                   @ [0x0A, 0x3000, 0x85])"
  let ?l2 = "\<lambda>messages stream. Inr ([0x200B] @ str '' ok'' @ [0xA0]) :: error + pystr"
  let ?l3 = "\<lambda>messages stream. if stream then Inr (str ''streamed'') else Inl LlamaError"
  let ?h = "[\<lparr>role = str ''user'', content = str ''oil?''\<rparr>,
       \<lparr>role = str ''assistant'', content = str ''yes''\<rparr>]"
  have s1: "strip ([0xA0, 0x2003, 0x09] @ str ''oil?| yes| and more?| '' @ [0x0A, 0x3000, 0x85])
      = str ''oil?| yes| and more?|''"
    by (simp add: strip_def isspace_def space_ranges_def str_def)
  have s2: "strip ([0x200B] @ str '' ok'' @ [0xA0]) = [0x200B] @ str '' ok''"
    by (simp add: strip_def isspace_def space_ranges_def str_def)
  have o1: "?l1 (?h @ [\<lparr>role = str ''user'', content = str ''and more?''\<rparr>]) False
      = Inr ([0xA0, 0x2003, 0x09] @ str ''oil?| yes| and more?| '' @ [0x0A, 0x3000, 0x85])"
    by (simp add: str_def)
  have f1: "fst (llama_chat ?l1 (str ''and more?'') ?h) = Inr (str ''oil?| yes| and more?|'')"
    by (simp only: llama_chat_def Let_def o1 fst_conv sum.case s1)
  have f2: "fst (llama_chat ?l2 (str ''and more?'') []) = Inr ([0x200B] @ str '' ok'')"
    by (simp only: llama_chat_def Let_def fst_conv sum.case s2)
  have f3: "fst (llama_chat ?l3 (str ''and more?'') []) = Inl LlamaError"
    by (simp add: llama_chat_def)
  from llama_chat_prompt_and_strip [of ?l1 "str ''and more?''" ?h]
  have t1: "snd (llama_chat ?l1 (str ''and more?'') ?h)
      = [(?h @ [\<lparr>role = str ''user'', content = str ''and more?''\<rparr>], False)]"
    by (rule conjunct1)
  from llama_chat_prompt_and_strip [of ?l3 "str ''and more?''" "[]"]
  have t3: "snd (llama_chat ?l3 (str ''and more?'') [])
      = [([] @ [\<lparr>role = str ''user'', content = str ''and more?''\<rparr>], False)]"
    by (rule conjunct1)
  from f1 t1 have c1: "llama_chat ?l1 (str ''and more?'') ?h =
      (Inr (str ''oil?| yes| and more?|''),
        [(?h @ [\<lparr>role = str ''user'', content = str ''and more?''\<rparr>], False)])"
    by (simp add: prod_eq_iff)
  from f3 t3 have c3: "llama_chat ?l3 (str ''and more?'') [] =
      (Inl LlamaError, [([\<lparr>role = str ''user'', content = str ''and more?''\<rparr>], False)])"
    by (simp add: prod_eq_iff)
  from c1 f2 c3 show ?thesis by simp
qed

text \<open>
  C2, as the code has it. When no intent replies and the model call fails, the
  error leaves \<^verbatim>\<open>chatbot\<close>: there is no \<^verbatim>\<open>try\<close> in the file, so no reply string
  is produced. The history of every user is what it was before the call.
\<close>

theorem generation_error_propagates:
  assumes "handle_intents hour (request_message json) (request_user_id json) = None"
    and "llm (history_of cc (request_user_id json) @
              [\<lparr>role = str ''user'', content = request_message json\<rparr>]) False = Inl e"
  shows "fst (chatbot llm hour json cc) = Inl e \<and>
         history_of (snd (chatbot llm hour json cc)) k = history_of cc k"
proof -
  let ?u = "request_user_id json" and ?m = "request_message json"
  from assms(2) have l: "fst (llama_chat llm ?m (history_of cc ?u)) = Inl e"
    by (simp add: llama_chat_def)
  from assms(1) have "chatbot llm hour json cc = chatbot_fallback llm ?m ?u cc"
    by (rule chatbot_no_intent)
  with fallback_error [OF l] show ?thesis by simp
qed

theorem generation_error_propagates_witness:
  "handle_intents 9 (request_message [str ''message'' \<mapsto> str ''tell me about coconut oil'', str ''user_id'' \<mapsto> str ''u4''])
      (request_user_id [str ''message'' \<mapsto> str ''tell me about coconut oil'', str ''user_id'' \<mapsto> str ''u4'']) = None \<and>
   fst (chatbot (\<lambda>messages stream. Inl LlamaError) 9
      [str ''message'' \<mapsto> str ''tell me about coconut oil'', str ''user_id'' \<mapsto> str ''u4'']
      [str ''u4'' \<mapsto> [str ''history'' \<mapsto> four_entries]]) = Inl LlamaError \<and>
   length (history_of (snd (chatbot (\<lambda>messages stream. Inl LlamaError) 9
      [str ''message'' \<mapsto> str ''tell me about coconut oil'', str ''user_id'' \<mapsto> str ''u4'']
      [str ''u4'' \<mapsto> [str ''history'' \<mapsto> four_entries]])) (str ''u4'')) = 4"
proof -
  let ?json = "[str ''message'' \<mapsto> str ''tell me about coconut oil'', str ''user_id'' \<mapsto> str ''u4'']"
  let ?llm = "\<lambda>messages stream. Inl LlamaError :: error + pystr"
  let ?cc = "[str ''u4'' \<mapsto> [str ''history'' \<mapsto> four_entries]]"
  have m: "request_message ?json = (str ''tell me about coconut oil'')"
    by (simp add: request_message_def dict_get_def json_keys_differ)
  have h: "handle_intents 9 (request_message ?json) (request_user_id ?json) = None"
    by (simp add: m handle_intents_def coconut_no_intent)
  have l: "?llm (history_of ?cc (request_user_id ?json) @
              [\<lparr>role = str ''user'', content = request_message ?json\<rparr>]) False = Inl LlamaError"
    by simp
  have n: "length (history_of ?cc (str ''u4'')) = 4"
    by (simp add: history_of_def dict_get_def four_entries_def)
  show ?thesis
    using h n generation_error_propagates [OF h l, where k = "str ''u4''"] by simp
qed

text \<open>
  C2 as stated fails. User \<^verbatim>\<open>u4\<close> has a history of four entries and the model
  raises: the request ends in the error instead of a degraded-service reply.
\<close>

theorem generation_error_counterexample:
  "chatbot (\<lambda>messages stream. Inl LlamaError) 9
      [str ''message'' \<mapsto> str ''tell me about coconut oil'', str ''user_id'' \<mapsto> str ''u4'']
      [str ''u4'' \<mapsto> [str ''history'' \<mapsto> four_entries]]
     = (Inl LlamaError, [str ''u4'' \<mapsto> [str ''history'' \<mapsto> four_entries]])"
proof -
  let ?json = "[str ''message'' \<mapsto> str ''tell me about coconut oil'', str ''user_id'' \<mapsto> str ''u4'']"
  have m: "request_message ?json = (str ''tell me about coconut oil'')"
    by (simp add: request_message_def dict_get_def json_keys_differ)
  have u: "request_user_id ?json = (str ''u4'')"
    by (simp add: request_user_id_def dict_get_def json_keys_differ)
  have h: "handle_intents 9 (request_message ?json) (request_user_id ?json) = None"
    by (simp add: m handle_intents_def coconut_no_intent)
  show ?thesis
    by (simp add: chatbot_no_intent [OF h] m u chatbot_fallback_Some llama_chat_def)
qed




text \<open>
  C9. Starting from the empty \<^verbatim>\<open>conversation_context\<close> of a fresh process, after any
  sequence of requests (intent replies, fallback replies and failed model calls, of
  any users) the history of every user has even length and its entries alternate,
  user then assistant, starting with a user entry.
\<close>

theorem history_alternates:
  "even (length (history_of (serve rs Map.empty) k)) \<and>
   alternating (history_of (serve rs Map.empty) k)"
proof -
  have "\<And>k. alternating (history_of Map.empty k)" by (simp add: history_of_def)
  then have "alternating (history_of (serve rs Map.empty) k)" by (rule serve_keeps_alternating)
  then show ?thesis by (simp add: alternating_even)
qed

theorem history_alternates_witness:
  "alternating (history_of (serve
      [(\<lambda>messages stream. Inr (str '' It is cold pressed. ''), 9,
          [str ''message'' \<mapsto> str ''tell me about coconut oil'', str ''user_id'' \<mapsto> str ''u3'']),
       (\<lambda>messages stream. Inl LlamaError, 18,
          [str ''message'' \<mapsto> str ''and for cooking?'', str ''user_id'' \<mapsto> str ''u3'']),
       (\<lambda>messages stream. Inl LlamaError, 18, [str ''message'' \<mapsto> str ''hi''])]
      Map.empty) (str ''u3'')) \<and>
   even (length (history_of (serve
      [(\<lambda>messages stream. Inr (str '' It is cold pressed. ''), 9,
          [str ''message'' \<mapsto> str ''tell me about coconut oil'', str ''user_id'' \<mapsto> str ''u3'']),
       (\<lambda>messages stream. Inl LlamaError, 18,
          [str ''message'' \<mapsto> str ''and for cooking?'', str ''user_id'' \<mapsto> str ''u3'']),
       (\<lambda>messages stream. Inl LlamaError, 18, [str ''message'' \<mapsto> str ''hi''])]
      Map.empty) (str ''u3'')))"
  using history_alternates
    [of "[(\<lambda>messages stream. Inr (str '' It is cold pressed. ''), 9,
          [str ''message'' \<mapsto> str ''tell me about coconut oil'', str ''user_id'' \<mapsto> str ''u3'']),
       (\<lambda>messages stream. Inl LlamaError, 18,
          [str ''message'' \<mapsto> str ''and for cooking?'', str ''user_id'' \<mapsto> str ''u3'']),
       (\<lambda>messages stream. Inl LlamaError, 18, [str ''message'' \<mapsto> str ''hi''])]" "str ''u3''"]
  by simp

text \<open>
  C1. Take any user \<open>k\<close>, any \<^verbatim>\<open>conversation_context\<close> and any non-empty sequence
  of fallback round-trips of \<open>k\<close>. After every one of them the history of \<open>k\<close> has
  \<open>min (previous length + 2) 10\<close> entries, at most 10, and is the last 10 of the
  previous history followed by the new user and assistant entries. After all of them
  it is the last 10 entries, in their order, of the first history followed by every
  exchange of the sequence: only the oldest entries are gone.
\<close>

theorem history_write_keeps_most_recent:
  assumes "fallback_trips k rs cc" and "rs \<noteq> []"
  shows "history_of (serve rs cc) k = last_n 10 (history_of cc k @ exchanges rs cc) \<and>
         suffix (history_of (serve rs cc) k) (history_of cc k @ exchanges rs cc) \<and>
         (\<forall>n<length rs.
            length (history_of (serve (take (Suc n) rs) cc) k) =
              min (length (history_of (serve (take n rs) cc) k) + 2) 10 \<and>
            length (history_of (serve (take (Suc n) rs) cc) k) \<le> 10 \<and>
            history_of (serve (take (Suc n) rs) cc) k =
              last_n 10 (history_of (serve (take n rs) cc) k @
                         exchanges [rs ! n] (serve (take n rs) cc)))"
proof -
  have a: "history_of (serve rs cc) k = last_n 10 (history_of cc k @ exchanges rs cc)"
    using assms by (rule trips_history)
  then have b: "suffix (history_of (serve rs cc) k) (history_of cc k @ exchanges rs cc)"
    by (simp add: suffix_last_n)
  from a b trips_each_write [OF assms(1)] show ?thesis by blast
qed

theorem history_write_keeps_most_recent_witness:
  "fallback_trips (str ''u3'')
      [(\<lambda>messages stream. Inr (str '' It is cold pressed. ''), 9,
          [str ''message'' \<mapsto> str ''tell me about coconut oil'', str ''user_id'' \<mapsto> str ''u3'']),
       (\<lambda>messages stream. Inr (str ''Yes, it suits frying.''), 18,
          [str ''message'' \<mapsto> str ''and for cooking?'', str ''user_id'' \<mapsto> str ''u3''])]
      [str ''u3'' \<mapsto> [str ''history'' \<mapsto> four_entries @ four_entries]] \<and>
   history_of (serve
      [(\<lambda>messages stream. Inr (str '' It is cold pressed. ''), 9,
          [str ''message'' \<mapsto> str ''tell me about coconut oil'', str ''user_id'' \<mapsto> str ''u3'']),
       (\<lambda>messages stream. Inr (str ''Yes, it suits frying.''), 18,
          [str ''message'' \<mapsto> str ''and for cooking?'', str ''user_id'' \<mapsto> str ''u3''])]
      [str ''u3'' \<mapsto> [str ''history'' \<mapsto> four_entries @ four_entries]]) (str ''u3'')
     = drop 2 four_entries @ four_entries @
       [\<lparr>role = str ''user'', content = str ''tell me about coconut oil''\<rparr>,
        \<lparr>role = str ''assistant'', content = str ''It is cold pressed.''\<rparr>,
        \<lparr>role = str ''user'', content = str ''and for cooking?''\<rparr>,
        \<lparr>role = str ''assistant'', content = str ''Yes, it suits frying.''\<rparr>]"
proof -
  let ?j1 = "[str ''message'' \<mapsto> str ''tell me about coconut oil'', str ''user_id'' \<mapsto> str ''u3'']"
  let ?j2 = "[str ''message'' \<mapsto> str ''and for cooking?'', str ''user_id'' \<mapsto> str ''u3'']"
  let ?l1 = "\<lambda>messages stream. Inr (str '' It is cold pressed. '') :: error + pystr"
  let ?l2 = "\<lambda>messages stream. Inr (str ''Yes, it suits frying.'') :: error + pystr"
  let ?cc = "[str ''u3'' \<mapsto> [str ''history'' \<mapsto> four_entries @ four_entries]]"
  let ?rs = "[(?l1, 9, ?j1), (?l2, 18, ?j2)]"
  have m1: "request_message ?j1 = (str ''tell me about coconut oil'')"
    and m2: "request_message ?j2 = (str ''and for cooking?'')"
    by (simp_all add: request_message_def dict_get_def json_keys_differ)
  have u1: "request_user_id ?j1 = (str ''u3'')" and u2: "request_user_id ?j2 = (str ''u3'')"
    by (simp_all add: request_user_id_def dict_get_def json_keys_differ)
  have h1: "handle_intents 9 (request_message ?j1) (request_user_id ?j1) = None"
    by (simp add: m1 handle_intents_def coconut_no_intent)
  have h2: "handle_intents 18 (request_message ?j2) (request_user_id ?j2) = None"
    by (simp add: m2 handle_intents_def more_no_intent)
  have s1: "strip (str '' It is cold pressed. '') = (str ''It is cold pressed.'')"
    and s2: "strip (str ''Yes, it suits frying.'') = (str ''Yes, it suits frying.'')"
    by (simp_all add: strip_def isspace_def space_ranges_def str_def)
  note f1 = chatbot_constant_llm [OF h1, of "str '' It is cold pressed. ''"]
  note f2 = chatbot_constant_llm [OF h2, of "str ''Yes, it suits frying.''"]
  have t: "fallback_trips (str ''u3'') ?rs ?cc"
    using h1 h2 by (simp add: u1 u2 f1 f2)
  have n: "?rs \<noteq> []" by simp
  have e: "exchanges ?rs ?cc =
       [\<lparr>role = str ''user'', content = str ''tell me about coconut oil''\<rparr>,
        \<lparr>role = str ''assistant'', content = str ''It is cold pressed.''\<rparr>,
        \<lparr>role = str ''user'', content = str ''and for cooking?''\<rparr>,
        \<lparr>role = str ''assistant'', content = str ''Yes, it suits frying.''\<rparr>]"
    by (simp add: f1 f2 s1 s2 m1 m2)
  have c: "history_of ?cc (str ''u3'') = four_entries @ four_entries"
    by (simp add: history_of_def dict_get_def)
  have l: "last_n 10 ((four_entries @ four_entries) @
       [\<lparr>role = str ''user'', content = str ''tell me about coconut oil''\<rparr>,
        \<lparr>role = str ''assistant'', content = str ''It is cold pressed.''\<rparr>,
        \<lparr>role = str ''user'', content = str ''and for cooking?''\<rparr>,
        \<lparr>role = str ''assistant'', content = str ''Yes, it suits frying.''\<rparr>])
     = drop 2 four_entries @ four_entries @
       [\<lparr>role = str ''user'', content = str ''tell me about coconut oil''\<rparr>,
        \<lparr>role = str ''assistant'', content = str ''It is cold pressed.''\<rparr>,
        \<lparr>role = str ''user'', content = str ''and for cooking?''\<rparr>,
        \<lparr>role = str ''assistant'', content = str ''Yes, it suits frying.''\<rparr>]"
    by (simp add: last_n_def four_entries_def)
  from history_write_keeps_most_recent [OF t n]
  have "history_of (serve ?rs ?cc) (str ''u3'') = last_n 10 (history_of ?cc (str ''u3'') @ exchanges ?rs ?cc)"
    by (rule conjunct1)
  with t show ?thesis unfolding e c l by simp
qed

end
